theory Spec2Isabelle
  imports Complex_Main "HOL-Library.Word"
begin

section \<open>Floating-point values\<close>

text \<open>
  The program computes with Go's \<^verbatim>\<open>float32\<close> and \<^verbatim>\<open>float64\<close>. A value of either
  type is a finite number, one of the two infinities, or NaN. The model keeps these four
  kinds apart, because the program's comparisons (\<^verbatim>\<open>c.Pitch > 89.0\<close>,
  \<^verbatim>\<open>currentTime-fc.lastUpdate >= 0.25\<close>, \<^verbatim>\<open>fc.fps == 0\<close>) answer false on NaN,
  and the special values propagate through the arithmetic as IEEE 754 prescribes.

  Arithmetic on finite values is exact: a finite operand is a real number, and the result
  of an operation on finite operands is the real result. Rounding to 24 or 53 bits,
  overflow of a finite result to an infinity, and the sign of zero are outside the model;
  the conversions \<^verbatim>\<open>float32(x)\<close> and \<^verbatim>\<open>float64(x)\<close> between the two widths are
  therefore the identity, and a decimal constant stands for its decimal value.
\<close>

datatype fl = Fin real | PInf | NInf | NaN

type_synonym float32 = fl
type_synonym float64 = fl

fun is_finite :: "fl \<Rightarrow> bool" where
  "is_finite (Fin a) = True"
| "is_finite PInf = False"
| "is_finite NInf = False"
| "is_finite NaN = False"

fun fneg :: "fl \<Rightarrow> fl" where
  "fneg (Fin a) = Fin (- a)"
| "fneg PInf = NInf"
| "fneg NInf = PInf"
| "fneg NaN = NaN"

fun fadd :: "fl \<Rightarrow> fl \<Rightarrow> fl" where
  "fadd (Fin a) (Fin b) = Fin (a + b)"
| "fadd NaN y = NaN"
| "fadd x NaN = NaN"
| "fadd PInf NInf = NaN"
| "fadd NInf PInf = NaN"
| "fadd PInf y = PInf"
| "fadd x PInf = PInf"
| "fadd NInf y = NInf"
| "fadd x NInf = NInf"

definition fsub :: "fl \<Rightarrow> fl \<Rightarrow> fl" where
  "fsub x y = fadd x (fneg y)"

fun fmul :: "fl \<Rightarrow> fl \<Rightarrow> fl" where
  "fmul (Fin a) (Fin b) = Fin (a * b)"
| "fmul NaN y = NaN"
| "fmul x NaN = NaN"
| "fmul PInf (Fin b) = (if b = 0 then NaN else if 0 < b then PInf else NInf)"
| "fmul NInf (Fin b) = (if b = 0 then NaN else if 0 < b then NInf else PInf)"
| "fmul (Fin a) PInf = (if a = 0 then NaN else if 0 < a then PInf else NInf)"
| "fmul (Fin a) NInf = (if a = 0 then NaN else if 0 < a then NInf else PInf)"
| "fmul PInf PInf = PInf"
| "fmul PInf NInf = NInf"
| "fmul NInf PInf = NInf"
| "fmul NInf NInf = PInf"

text \<open>
  Division never fails in Go: a finite non-zero number divided by zero is an infinity, and
  zero divided by zero is NaN. The model has one zero, which counts as positive.
\<close>

fun fdiv :: "fl \<Rightarrow> fl \<Rightarrow> fl" where
  "fdiv (Fin a) (Fin b) =
     (if b = 0 then (if a = 0 then NaN else if 0 < a then PInf else NInf)
      else Fin (a / b))"
| "fdiv NaN y = NaN"
| "fdiv x NaN = NaN"
| "fdiv (Fin a) PInf = Fin 0"
| "fdiv (Fin a) NInf = Fin 0"
| "fdiv PInf (Fin b) = (if 0 \<le> b then PInf else NInf)"
| "fdiv NInf (Fin b) = (if 0 \<le> b then NInf else PInf)"
| "fdiv PInf PInf = NaN"
| "fdiv PInf NInf = NaN"
| "fdiv NInf PInf = NaN"
| "fdiv NInf NInf = NaN"

fun fsqrt :: "fl \<Rightarrow> fl" where
  "fsqrt (Fin a) = (if a < 0 then NaN else Fin (sqrt a))"
| "fsqrt PInf = PInf"
| "fsqrt NInf = NaN"
| "fsqrt NaN = NaN"

fun fcos :: "fl \<Rightarrow> fl" where
  "fcos (Fin a) = Fin (cos a)"
| "fcos PInf = NaN"
| "fcos NInf = NaN"
| "fcos NaN = NaN"

fun fsin :: "fl \<Rightarrow> fl" where
  "fsin (Fin a) = Fin (sin a)"
| "fsin PInf = NaN"
| "fsin NInf = NaN"
| "fsin NaN = NaN"

text \<open>The comparisons: every comparison with NaN is false.\<close>

fun flt :: "fl \<Rightarrow> fl \<Rightarrow> bool" where
  "flt (Fin a) (Fin b) = (a < b)"
| "flt NaN y = False"
| "flt x NaN = False"
| "flt x NInf = False"
| "flt PInf y = False"
| "flt NInf y = True"
| "flt x PInf = True"

fun fle :: "fl \<Rightarrow> fl \<Rightarrow> bool" where
  "fle (Fin a) (Fin b) = (a \<le> b)"
| "fle NaN y = False"
| "fle x NaN = False"
| "fle NInf y = True"
| "fle x PInf = True"
| "fle x NInf = False"
| "fle PInf y = False"

definition fgt :: "fl \<Rightarrow> fl \<Rightarrow> bool" where
  "fgt x y = flt y x"

definition fge :: "fl \<Rightarrow> fl \<Rightarrow> bool" where
  "fge x y = fle y x"

definition feq :: "fl \<Rightarrow> fl \<Rightarrow> bool" where
  "feq x y = (x \<noteq> NaN \<and> y \<noteq> NaN \<and> x = y)"

text \<open>\<^verbatim>\<open>float64(n)\<close> for an integer \<open>n\<close>.\<close>

definition float64_of_int :: "int \<Rightarrow> float64" where
  "float64_of_int n = Fin (of_int n)"

section \<open>Vectors\<close>

text \<open>
  \<^verbatim>\<open>mgl32.Vec3\<close> is an array of three \<^verbatim>\<open>float32\<close>. The vector operations belong to
  the library \<^verbatim>\<open>github.com/go-gl/mathgl/mgl32\<close>, which the repository imports and does
  not contain.
\<close>

type_synonym Vec3 = "float32 \<times> float32 \<times> float32"

text \<open>
  Modelled from the spec: \<^verbatim>\<open>mgl32.Vec3.Add\<close>, \<^verbatim>\<open>Sub\<close> and \<^verbatim>\<open>Mul\<close> are missing from the
  sources; the spec's "translate position along front or right" by \<open>speed\<close> is the
  componentwise sum, difference and scaling.
\<close>

fun Add :: "Vec3 \<Rightarrow> Vec3 \<Rightarrow> Vec3" where
  "Add (x1, y1, z1) (x2, y2, z2) = (fadd x1 x2, fadd y1 y2, fadd z1 z2)"

fun Sub :: "Vec3 \<Rightarrow> Vec3 \<Rightarrow> Vec3" where
  "Sub (x1, y1, z1) (x2, y2, z2) = (fsub x1 x2, fsub y1 y2, fsub z1 z2)"

fun Mul :: "Vec3 \<Rightarrow> float32 \<Rightarrow> Vec3" where
  "Mul (x, y, z) c = (fmul x c, fmul y c, fmul z c)"

text \<open>
  Modelled from the spec: \<^verbatim>\<open>mgl32.Vec3.Dot\<close> is missing from the sources; the spec's
  "dot products" of the basis vectors are the sums of the componentwise products.
\<close>

fun Dot :: "Vec3 \<Rightarrow> Vec3 \<Rightarrow> float32" where
  "Dot (x1, y1, z1) (x2, y2, z2) = fadd (fadd (fmul x1 x2) (fmul y1 y2)) (fmul z1 z2)"

text \<open>
  Modelled from the spec: \<^verbatim>\<open>mgl32.Vec3.Cross\<close> is missing from the sources; the spec's
  \<open>cross\<close> is the right-handed vector product.
\<close>

fun Cross :: "Vec3 \<Rightarrow> Vec3 \<Rightarrow> Vec3" where
  "Cross (x1, y1, z1) (x2, y2, z2) =
     (fsub (fmul y1 z2) (fmul z1 y2),
      fsub (fmul z1 x2) (fmul x1 z2),
      fsub (fmul x1 y2) (fmul y1 x2))"

text \<open>
  Modelled from the spec: \<^verbatim>\<open>mgl32.Vec3.Len\<close> and \<^verbatim>\<open>Normalize\<close> are missing from the
  sources; the spec's "unit length" is the Euclidean length, and \<open>normalize\<close> scales a
  vector by the reciprocal of its length. No test for a zero length is made: the
  reciprocal of zero is an infinity, and the scaled components are then NaN or infinite.
\<close>

fun Len :: "Vec3 \<Rightarrow> float32" where
  "Len (x, y, z) = fsqrt (fadd (fadd (fmul x x) (fmul y y)) (fmul z z))"

definition Normalize :: "Vec3 \<Rightarrow> Vec3" where
  "Normalize v = (let l = fdiv (Fin 1) (Len v) in Mul v l)"

text \<open>
  Modelled from the spec: \<^verbatim>\<open>mgl32.DegToRad\<close> is missing from the sources; the spec's
  \<open>rad\<close> converts degrees to radians.
\<close>

definition DegToRad :: "float32 \<Rightarrow> float32" where
  "DegToRad angle = fdiv (fmul angle (Fin pi)) (Fin 180)"

section \<open>The camera (camera.go)\<close>

record Camera =
  Position :: Vec3
  Front :: Vec3
  Up :: Vec3
  Right :: Vec3
  WorldUp :: Vec3
  Yaw :: float32
  Pitch :: float32
  MovementSpeed :: float32
  MouseSens :: float32
  firstMouse :: bool
  lastX :: float64
  lastY :: float64

definition updateCameraVectors :: "Camera \<Rightarrow> Camera" where
  "updateCameraVectors c =
     (let front =
            (fmul (fcos (DegToRad (Yaw c))) (fcos (DegToRad (Pitch c))),
             fsin (DegToRad (Pitch c)),
             fmul (fsin (DegToRad (Yaw c))) (fcos (DegToRad (Pitch c))));
          c = c\<lparr>Front := Normalize front\<rparr>;
          c = c\<lparr>Right := Normalize (Cross (Front c) (WorldUp c))\<rparr>;
          c = c\<lparr>Up := Normalize (Cross (Right c) (Front c))\<rparr>
      in c)"

text \<open>
  The composite literal of \<^verbatim>\<open>NewCamera\<close> names eight fields; \<^verbatim>\<open>Up\<close>, \<^verbatim>\<open>Right\<close>,
  \<^verbatim>\<open>lastX\<close> and \<^verbatim>\<open>lastY\<close> get Go's zero value.
\<close>

definition NewCamera :: Camera where
  "NewCamera =
     updateCameraVectors
       \<lparr>Position = (Fin 0, Fin 0, Fin 3),
        Front = (Fin 0, Fin 0, Fin (- 1)),
        Up = (Fin 0, Fin 0, Fin 0),
        Right = (Fin 0, Fin 0, Fin 0),
        WorldUp = (Fin 0, Fin 1, Fin 0),
        Yaw = Fin (- 90),
        Pitch = Fin 0,
        MovementSpeed = Fin 2.5,
        MouseSens = Fin 0.1,
        firstMouse = True,
        lastX = Fin 0,
        lastY = Fin 0\<rparr>"

text \<open>
  \<^verbatim>\<open>HandleMouseMovement\<close> does not use its window argument. The method mutates the
  camera through the pointer; the model returns the updated camera.
\<close>

definition HandleMouseMovement :: "Camera \<Rightarrow> float64 \<Rightarrow> float64 \<Rightarrow> Camera" where
  "HandleMouseMovement c xpos ypos =
     (if firstMouse c then c\<lparr>lastX := xpos, lastY := ypos, firstMouse := False\<rparr>
      else
        let xoffset = fsub xpos (lastX c);
            yoffset = fsub (lastY c) ypos;
            c = c\<lparr>lastX := xpos, lastY := ypos\<rparr>;
            xoffset = fmul xoffset (MouseSens c);
            yoffset = fmul yoffset (MouseSens c);
            c = c\<lparr>Yaw := fadd (Yaw c) xoffset\<rparr>;
            c = c\<lparr>Pitch := fadd (Pitch c) yoffset\<rparr>;
            c = (if fgt (Pitch c) (Fin 89) then c\<lparr>Pitch := Fin 89\<rparr> else c);
            c = (if flt (Pitch c) (Fin (- 89)) then c\<lparr>Pitch := Fin (- 89)\<rparr> else c)
        in updateCameraVectors c)"

text \<open>
  The four \<^verbatim>\<open>window.GetKey(...) == glfw.Press\<close> tests of \<^verbatim>\<open>HandleKeyboard\<close> are the
  booleans \<open>keyW\<close>, \<open>keyS\<close>, \<open>keyA\<close> and \<open>keyD\<close>.
\<close>

definition HandleKeyboard :: "Camera \<Rightarrow> bool \<Rightarrow> bool \<Rightarrow> bool \<Rightarrow> bool \<Rightarrow> float64 \<Rightarrow> Camera" where
  "HandleKeyboard c keyW keyS keyA keyD deltaTime =
     (let cameraSpeed = fmul deltaTime (MovementSpeed c);
          c = (if keyW then c\<lparr>Position := Add (Position c) (Mul (Front c) cameraSpeed)\<rparr> else c);
          c = (if keyS then c\<lparr>Position := Sub (Position c) (Mul (Front c) cameraSpeed)\<rparr> else c);
          c = (if keyA then c\<lparr>Position := Sub (Position c) (Mul (Right c) cameraSpeed)\<rparr> else c);
          c = (if keyD then c\<lparr>Position := Add (Position c) (Mul (Right c) cameraSpeed)\<rparr> else c)
      in c)"

section \<open>The cursor callback and the movement code of the render loop (main.go)\<close>

text \<open>
  \<^verbatim>\<open>main\<close> does not call the two methods above: it registers a closure as cursor
  callback and moves the camera inline in the render loop. The closure has no
  \<^verbatim>\<open>return\<close> in its first-sample branch.
\<close>

definition cursorPosCallback :: "Camera \<Rightarrow> float64 \<Rightarrow> float64 \<Rightarrow> Camera" where
  "cursorPosCallback camera xpos ypos =
     (let camera = (if firstMouse camera
                    then camera\<lparr>lastX := xpos, lastY := ypos, firstMouse := False\<rparr>
                    else camera);
          xoffset = fsub xpos (lastX camera);
          yoffset = fsub (lastY camera) ypos;
          camera = camera\<lparr>lastX := xpos, lastY := ypos\<rparr>;
          xoffset = fmul xoffset (MouseSens camera);
          yoffset = fmul yoffset (MouseSens camera);
          camera = camera\<lparr>Yaw := fadd (Yaw camera) xoffset\<rparr>;
          camera = camera\<lparr>Pitch := fadd (Pitch camera) yoffset\<rparr>;
          camera = (if fgt (Pitch camera) (Fin 89) then camera\<lparr>Pitch := Fin 89\<rparr> else camera);
          camera = (if flt (Pitch camera) (Fin (- 89)) then camera\<lparr>Pitch := Fin (- 89)\<rparr>
                    else camera)
      in updateCameraVectors camera)"

definition renderLoopMovement :: "Camera \<Rightarrow> bool \<Rightarrow> bool \<Rightarrow> bool \<Rightarrow> bool \<Rightarrow> float64 \<Rightarrow> Camera" where
  "renderLoopMovement camera keyW keyS keyA keyD deltaTime =
     (let cameraSpeed = fmul deltaTime (MovementSpeed camera);
          camera = (if keyW
                    then camera\<lparr>Position := Add (Position camera) (Mul (Front camera) cameraSpeed)\<rparr>
                    else camera);
          camera = (if keyS
                    then camera\<lparr>Position := Sub (Position camera) (Mul (Front camera) cameraSpeed)\<rparr>
                    else camera);
          camera = (if keyA
                    then camera\<lparr>Position := Sub (Position camera) (Mul (Right camera) cameraSpeed)\<rparr>
                    else camera);
          camera = (if keyD
                    then camera\<lparr>Position := Add (Position camera) (Mul (Right camera) cameraSpeed)\<rparr>
                    else camera)
      in camera)"

text \<open>A sequence of cursor samples, delivered one call after the other.\<close>

definition mouseRun :: "Camera \<Rightarrow> (float64 \<times> float64) list \<Rightarrow> Camera" where
  "mouseRun c samples = foldl (\<lambda>c (xpos, ypos). HandleMouseMovement c xpos ypos) c samples"

definition callbackRun :: "Camera \<Rightarrow> (float64 \<times> float64) list \<Rightarrow> Camera" where
  "callbackRun c samples = foldl (\<lambda>c (xpos, ypos). cursorPosCallback c xpos ypos) c samples"

section \<open>The frame-rate counter (main.go)\<close>

text \<open>
  \<^verbatim>\<open>frameCount\<close> is a Go \<^verbatim>\<open>int\<close>, a signed machine integer of 32 or 64 bits according
  to the platform. Its type is the parameter \<open>'i\<close> of the record, and every function below
  takes it as a word \<open>'w word\<close> of any width, read as a signed number by \<open>sint\<close>:
  \<^verbatim>\<open>fc.frameCount++\<close> wraps from the largest to the smallest integer, as \<open>+ 1\<close> on words
  does.
\<close>

record 'i FPSCounter =
  lastUpdate :: float64
  frameCount :: 'i
  fps :: float64

text \<open>
  \<^verbatim>\<open>glfw.GetTime()\<close> returns the seconds elapsed since GLFW was initialised, a finite
  number: the reading is the parameter \<open>now\<close>, a real.
  \<^verbatim>\<open>Update\<close> returns \<^verbatim>\<open>fc.fps\<close> and leaves the counter updated: the model returns
  the pair of the two. The local variable \<^verbatim>\<open>fps\<close> of \<^verbatim>\<open>Update\<close> is \<open>fps'\<close> here.
\<close>

definition NewFPSCounter :: "real \<Rightarrow> ('w::len) word FPSCounter" where
  "NewFPSCounter now = \<lparr>lastUpdate = Fin now, frameCount = 0, fps = Fin 0\<rparr>"

definition Update :: "('w::len) word FPSCounter \<Rightarrow> real \<Rightarrow> 'w word FPSCounter \<times> float64" where
  "Update fc now =
     (let currentTime = Fin now;
          fc = fc\<lparr>frameCount := frameCount fc + 1\<rparr>;
          fc = (if fge (fsub currentTime (lastUpdate fc)) (Fin 0.25)
                then
                  let fps' = fdiv (float64_of_int (sint (frameCount fc)))
                                  (fsub currentTime (lastUpdate fc));
                      fc = (if feq (fps fc) (Fin 0)
                            then fc\<lparr>fps := fps'\<rparr>
                            else fc\<lparr>fps := fadd (fmul (fps fc) (Fin 0.9)) (fmul fps' (Fin 0.1))\<rparr>);
                      fc = fc\<lparr>frameCount := 0\<rparr>;
                      fc = fc\<lparr>lastUpdate := currentTime\<rparr>
                  in fc
                else fc)
      in (fc, fps fc))"

text \<open>A sequence of clock readings, one call of \<^verbatim>\<open>Update\<close> for each.\<close>

definition updateRun :: "('w::len) word FPSCounter \<Rightarrow> real list \<Rightarrow> 'w word FPSCounter" where
  "updateRun fc readings = foldl (\<lambda>fc now. fst (Update fc now)) fc readings"

section \<open>Predicates of the statements\<close>

text \<open>The pitch lies in \<open>[-89, 89]\<close>, by the program's own comparison of floats.\<close>

definition pitch_in_range :: "float32 \<Rightarrow> bool" where
  "pitch_in_range p = (fle (Fin (- 89)) p \<and> fle p (Fin 89))"

text \<open>
  What a cursor call needs of the camera to keep the pitch in range: the pitch is in range,
  and the recorded cursor height and the sensitivity are finite.
\<close>

definition pitch_inv :: "Camera \<Rightarrow> bool" where
  "pitch_inv c = (pitch_in_range (Pitch c) \<and> is_finite (lastY c) \<and> is_finite (MouseSens c))"

text \<open>The first sample of a sequence of cursor samples, if there is one, is a pair of finite numbers.\<close>

fun first_sample_finite :: "(float64 \<times> float64) list \<Rightarrow> bool" where
  "first_sample_finite [] = True"
| "first_sample_finite ((xpos, ypos) # rest) = (is_finite xpos \<and> is_finite ypos)"

text \<open>
  Three vectors are pairwise orthogonal and of unit length exactly, by the program's own
  equality of floats (which NaN never satisfies). The exact arithmetic of the model gives
  this much; it is a step of the proof and is weakened to a tolerance in the statement.
\<close>

definition orthonormal :: "Vec3 \<Rightarrow> Vec3 \<Rightarrow> Vec3 \<Rightarrow> bool" where
  "orthonormal f r u =
     (feq (Dot f r) (Fin 0) \<and> feq (Dot f u) (Fin 0) \<and> feq (Dot r u) (Fin 0)
      \<and> feq (Len f) (Fin 1) \<and> feq (Len r) (Fin 1) \<and> feq (Len u) (Fin 1))"

text \<open>
  Two floats are within a tolerance of each other: \<^verbatim>\<open>math.Abs(x - y) <= tol\<close>, which
  fails when either is NaN. Three vectors are orthonormal within a tolerance when their
  three dot products are within it of \<open>0\<close> and their three lengths within it of \<open>1\<close>.
\<close>

fun fabs :: "fl \<Rightarrow> fl" where
  "fabs (Fin a) = Fin \<bar>a\<bar>"
| "fabs PInf = PInf"
| "fabs NInf = PInf"
| "fabs NaN = NaN"

definition close_to :: "real \<Rightarrow> fl \<Rightarrow> fl \<Rightarrow> bool" where
  "close_to tol x y = fle (fabs (fsub x y)) (Fin tol)"

definition orthonormal_within :: "real \<Rightarrow> Vec3 \<Rightarrow> Vec3 \<Rightarrow> Vec3 \<Rightarrow> bool" where
  "orthonormal_within tol f r u =
     (close_to tol (Dot f r) (Fin 0) \<and> close_to tol (Dot f u) (Fin 0)
      \<and> close_to tol (Dot r u) (Fin 0)
      \<and> close_to tol (Len f) (Fin 1) \<and> close_to tol (Len r) (Fin 1)
      \<and> close_to tol (Len u) (Fin 1))"

text \<open>
  The yaws whose radians the program can compute. \<^verbatim>\<open>mgl32.DegToRad\<close> multiplies the
  angle by \<^verbatim>\<open>float32(math.Pi)\<close>, which is \<open>13176795 / 2^22\<close>, in \<^verbatim>\<open>float32\<close>, and a
  product of magnitude \<open>(2 - 2^-24) * 2^127\<close> or more rounds to an infinity, whose cosine
  is NaN. The model has no overflow, so the bound is a hypothesis of the statement about the
  basis: it holds of the finite yaws of magnitude below about \<open>1.0831 * 10^38\<close>.
\<close>

definition float32_pi :: real where
  "float32_pi = 13176795 / 4194304"

definition float32_overflow :: real where
  "float32_overflow = (2 - 1 / 2 ^ 24) * 2 ^ 127"

fun radians_in_range :: "float32 \<Rightarrow> bool" where
  "radians_in_range (Fin y) = (\<bar>y\<bar> * float32_pi < float32_overflow)"
| "radians_in_range PInf = False"
| "radians_in_range NInf = False"
| "radians_in_range NaN = False"

section \<open>The divisions, with their divisors checked\<close>

text \<open>
  Go's float division does not fail. To state that a division never meets a zero divisor,
  the three functions below repeat \<^verbatim>\<open>Normalize\<close>, \<^verbatim>\<open>updateCameraVectors\<close> and
  \<^verbatim>\<open>Update\<close> with one change: where the original divides, they first test the divisor
  and give \<open>None\<close> when it is zero. A vector has length zero exactly when it is the zero
  vector.
\<close>

definition Normalize_checked :: "Vec3 \<Rightarrow> Vec3 option" where
  "Normalize_checked v =
     (if feq (Len v) (Fin 0) then None
      else let l = fdiv (Fin 1) (Len v) in Some (Mul v l))"

definition updateCameraVectors_checked :: "Camera \<Rightarrow> Camera option" where
  "updateCameraVectors_checked c =
     (let front =
            (fmul (fcos (DegToRad (Yaw c))) (fcos (DegToRad (Pitch c))),
             fsin (DegToRad (Pitch c)),
             fmul (fsin (DegToRad (Yaw c))) (fcos (DegToRad (Pitch c))))
      in case Normalize_checked front of
           None \<Rightarrow> None
         | Some f \<Rightarrow>
             let c = c\<lparr>Front := f\<rparr> in
             (case Normalize_checked (Cross (Front c) (WorldUp c)) of
                None \<Rightarrow> None
              | Some r \<Rightarrow>
                  let c = c\<lparr>Right := r\<rparr> in
                  (case Normalize_checked (Cross (Right c) (Front c)) of
                     None \<Rightarrow> None
                   | Some u \<Rightarrow> Some (c\<lparr>Up := u\<rparr>))))"

definition Update_checked ::
  "('w::len) word FPSCounter \<Rightarrow> real \<Rightarrow> ('w word FPSCounter \<times> float64) option" where
  "Update_checked fc now =
     (let currentTime = Fin now;
          fc = fc\<lparr>frameCount := frameCount fc + 1\<rparr>
      in if fge (fsub currentTime (lastUpdate fc)) (Fin 0.25)
         then
           if feq (fsub currentTime (lastUpdate fc)) (Fin 0) then None
           else
             let fps' = fdiv (float64_of_int (sint (frameCount fc)))
                             (fsub currentTime (lastUpdate fc));
                 fc = (if feq (fps fc) (Fin 0)
                       then fc\<lparr>fps := fps'\<rparr>
                       else fc\<lparr>fps := fadd (fmul (fps fc) (Fin 0.9)) (fmul fps' (Fin 0.1))\<rparr>);
                 fc = fc\<lparr>frameCount := 0\<rparr>;
                 fc = fc\<lparr>lastUpdate := currentTime\<rparr>
             in Some (fc, fps fc)
         else Some (fc, fps fc))"

section \<open>Runs of the frame-rate counter\<close>

text \<open>The clock readings of \<open>n\<close> frames at a constant rate of 60 per second: \<open>k / 60\<close> for \<open>k = 1, \<dots>, n\<close>.\<close>

definition frameTimes :: "nat \<Rightarrow> real list" where
  "frameTimes n = map (\<lambda>k. real k / 60) [1..<Suc n]"

text \<open>
  The two tests of \<^verbatim>\<open>Update\<close>, as predicates of the counter before the call and the
  clock reading: the call closes a window (it takes the branch with the division), and the
  call seeds the smoothed value (it takes the branch \<^verbatim>\<open>fc.fps = fps\<close>). Neither depends
  on the frame count that \<^verbatim>\<open>Update\<close> increments first. \<open>seedCount\<close> counts the seeding
  calls of a run.
\<close>

definition windowCloses :: "('w::len) word FPSCounter \<Rightarrow> real \<Rightarrow> bool" where
  "windowCloses fc now = fge (fsub (Fin now) (lastUpdate fc)) (Fin 0.25)"

definition seeds :: "('w::len) word FPSCounter \<Rightarrow> real \<Rightarrow> bool" where
  "seeds fc now = (windowCloses fc now \<and> feq (fps fc) (Fin 0))"

fun seedCount :: "('w::len) word FPSCounter \<Rightarrow> real list \<Rightarrow> nat" where
  "seedCount fc [] = 0"
| "seedCount fc (now # readings) =
     (if seeds fc now then 1 else 0) + seedCount (fst (Update fc now)) readings"

text \<open>
  No call of a run wraps the frame count: each call finds it below the largest integer of
  its width, \<open>2^(w-1) - 1\<close>.
\<close>

fun noWrap :: "('w::len) word FPSCounter \<Rightarrow> real list \<Rightarrow> bool" where
  "noWrap fc [] = True"
| "noWrap fc (now # readings) =
     (sint (frameCount fc) < 2 ^ (LENGTH('w) - 1) - 1 \<and> noWrap (fst (Update fc now)) readings)"

text \<open>
  A strictly increasing sequence of \<open>2^31 + 1\<close> clock readings: \<open>1/4\<close>, then
  \<open>1/4 + k / 2^33\<close> for \<open>k = 1, \<dots>, 2^31 - 1\<close>, which all lie within a quarter of a second
  after \<open>1/4\<close>, then \<open>1/2\<close>. Each of them is a \<^verbatim>\<open>float64\<close>, and so is each difference
  of two of them.
\<close>

definition wrapReadings :: "real list" where
  "wrapReadings = 1 / 4 # map (\<lambda>k. 1 / 4 + real k / 2 ^ 33) [1..<2 ^ 31] @ [1 / 2]"

text \<open>
  What every counter of a run without wrap-around satisfies: the window start and the
  smoothed value are finite, and neither the frame count nor the smoothed value is negative.
  The smoothed value is positive once a window has closed.
\<close>

definition fps_inv :: "('w::len) word FPSCounter \<Rightarrow> bool" where
  "fps_inv fc =
     (is_finite (lastUpdate fc) \<and> 0 \<le> sint (frameCount fc) \<and> fle (Fin 0) (fps fc)
      \<and> is_finite (fps fc))"

definition fps_positive :: "('w::len) word FPSCounter \<Rightarrow> bool" where
  "fps_positive fc = (flt (Fin 0) (fps fc) \<and> is_finite (fps fc))"

section \<open>Facts about the float operations\<close>

lemma is_finite_iff: "is_finite x \<longleftrightarrow> (\<exists>r. x = Fin r)"
  by (cases x) simp_all

lemma fadd_NaN_right [simp]: "fadd x NaN = NaN"
  by (cases x) simp_all

lemma fmul_NaN_right [simp]: "fmul x NaN = NaN"
  by (cases x) simp_all

lemma fdiv_NaN_right [simp]: "fdiv x NaN = NaN"
  by (cases x) simp_all

lemma fadd_zero_right [simp]: "fadd x (Fin 0) = x"
  by (cases x) simp_all

lemma flt_NaN_right [simp]: "\<not> flt x NaN"
  by (cases x) simp_all

lemma fle_NaN_right [simp]: "\<not> fle x NaN"
  by (cases x) simp_all

lemma pitch_in_range_iff: "pitch_in_range p \<longleftrightarrow> (\<exists>r. p = Fin r \<and> - 89 \<le> r \<and> r \<le> 89)"
  by (cases p) (simp_all add: pitch_in_range_def)

section \<open>The camera after construction\<close>

lemma NewCamera_val:
  "NewCamera =
     \<lparr>Position = (Fin 0, Fin 0, Fin 3),
      Front = (Fin 0, Fin 0, Fin (- 1)),
      Up = (Fin 0, Fin 1, Fin 0),
      Right = (Fin 1, Fin 0, Fin 0),
      WorldUp = (Fin 0, Fin 1, Fin 0),
      Yaw = Fin (- 90),
      Pitch = Fin 0,
      MovementSpeed = Fin 2.5,
      MouseSens = Fin 0.1,
      firstMouse = True,
      lastX = Fin 0,
      lastY = Fin 0\<rparr>"
  by (simp add: NewCamera_def updateCameraVectors_def DegToRad_def Normalize_def fsub_def Let_def)

lemma updateCameraVectors_fields [simp]:
  "Position (updateCameraVectors c) = Position c"
  "WorldUp (updateCameraVectors c) = WorldUp c"
  "Yaw (updateCameraVectors c) = Yaw c"
  "Pitch (updateCameraVectors c) = Pitch c"
  "MovementSpeed (updateCameraVectors c) = MovementSpeed c"
  "MouseSens (updateCameraVectors c) = MouseSens c"
  "firstMouse (updateCameraVectors c) = firstMouse c"
  "lastX (updateCameraVectors c) = lastX c"
  "lastY (updateCameraVectors c) = lastY c"
  by (simp_all add: updateCameraVectors_def Let_def)

text \<open>The recomputation reads yaw, pitch and the world's up vector only.\<close>

lemma updateCameraVectors_commute:
  "updateCameraVectors (c\<lparr>Position := pos\<rparr>) = (updateCameraVectors c)\<lparr>Position := pos\<rparr>"
  "updateCameraVectors (c\<lparr>lastX := x\<rparr>) = (updateCameraVectors c)\<lparr>lastX := x\<rparr>"
  "updateCameraVectors (c\<lparr>lastY := y\<rparr>) = (updateCameraVectors c)\<lparr>lastY := y\<rparr>"
  "updateCameraVectors (c\<lparr>firstMouse := b\<rparr>) = (updateCameraVectors c)\<lparr>firstMouse := b\<rparr>"
  by (simp_all add: updateCameraVectors_def Let_def)

lemma updateCameraVectors_idem [simp]:
  "updateCameraVectors (updateCameraVectors c) = updateCameraVectors c"
  by (simp add: updateCameraVectors_def Let_def)

lemma updateCameraVectors_NewCamera: "updateCameraVectors NewCamera = NewCamera"
  by (simp add: NewCamera_def)

section \<open>The pitch clamp\<close>

lemma HandleMouseMovement_pitch_inv:
  assumes "pitch_inv c" and "is_finite ypos"
  shows "pitch_inv (HandleMouseMovement c xpos ypos)"
proof -
  from assms obtain p l m y where
    "Pitch c = Fin p" "- 89 \<le> p" "p \<le> 89" "lastY c = Fin l" "MouseSens c = Fin m" "ypos = Fin y"
    unfolding pitch_inv_def pitch_in_range_iff is_finite_iff by blast
  then show ?thesis
    by (simp add: HandleMouseMovement_def pitch_inv_def pitch_in_range_iff Let_def fsub_def fgt_def)
qed

lemma cursorPosCallback_pitch_inv:
  assumes "pitch_inv c" and "is_finite ypos"
  shows "pitch_inv (cursorPosCallback c xpos ypos)"
proof -
  from assms obtain p l m y where
    "Pitch c = Fin p" "- 89 \<le> p" "p \<le> 89" "lastY c = Fin l" "MouseSens c = Fin m" "ypos = Fin y"
    unfolding pitch_inv_def pitch_in_range_iff is_finite_iff by blast
  then show ?thesis
    by (simp add: cursorPosCallback_def pitch_inv_def pitch_in_range_iff Let_def fsub_def fgt_def)
qed

lemma mouseRun_pitch_inv:
  "pitch_inv c \<Longrightarrow> \<forall>s \<in> set samples. is_finite (snd s) \<Longrightarrow> pitch_inv (mouseRun c samples)"
  unfolding mouseRun_def
  by (induction samples arbitrary: c) (auto simp: HandleMouseMovement_pitch_inv)

lemma callbackRun_pitch_inv:
  "pitch_inv c \<Longrightarrow> \<forall>s \<in> set samples. is_finite (snd s) \<Longrightarrow> pitch_inv (callbackRun c samples)"
  unfolding callbackRun_def
  by (induction samples arbitrary: c) (auto simp: cursorPosCallback_pitch_inv)

lemma NewCamera_pitch_inv: "pitch_inv (NewCamera\<lparr>Position := pos\<rparr>)"
  by (simp add: NewCamera_val pitch_inv_def pitch_in_range_def)

text \<open>
  C1. As stated, for arbitrary float coordinates, the claim fails: a NaN height makes the
  vertical offset NaN, the pitch becomes NaN, and neither \<^verbatim>\<open>c.Pitch > 89.0\<close> nor
  \<^verbatim>\<open>c.Pitch < -89.0\<close> holds of NaN, so that the pitch stays NaN. Here the second cursor
  call after construction has the coordinates \<open>(0, NaN)\<close>.
\<close>

theorem C1_pitch_nan_counterexample:
  "\<not> pitch_in_range
       (Pitch (HandleMouseMovement (HandleMouseMovement NewCamera (Fin 0) (Fin 0)) (Fin 0) NaN))"
  by (simp add: NewCamera_val HandleMouseMovement_def pitch_in_range_def fsub_def fgt_def Let_def)

text \<open>
  C1, amended. Starting from the camera that \<^verbatim>\<open>NewCamera\<close> produces (with any position
  set afterwards, as \<^verbatim>\<open>main\<close> does), for every sequence of cursor calls whose vertical
  coordinates are finite, with arbitrary horizontal coordinates, the pitch lies in
  \<open>[-89, 89]\<close> after every call, that is, after every prefix \<open>take n samples\<close> of the
  sequence. This holds of \<^verbatim>\<open>HandleMouseMovement\<close> and of the cursor callback of
  \<^verbatim>\<open>main\<close>.
\<close>

theorem C1_pitch_in_range:
  assumes "\<forall>s \<in> set samples. is_finite (snd s)"
  shows "pitch_in_range (Pitch (mouseRun (NewCamera\<lparr>Position := pos\<rparr>) (take n samples)))
       \<and> pitch_in_range (Pitch (callbackRun (NewCamera\<lparr>Position := pos\<rparr>) (take n samples)))"
proof -
  have "\<forall>s \<in> set (take n samples). is_finite (snd s)"
    using assms by (meson in_set_takeD)
  then show ?thesis
    using mouseRun_pitch_inv [OF NewCamera_pitch_inv] callbackRun_pitch_inv [OF NewCamera_pitch_inv]
    by (simp add: pitch_inv_def)
qed

theorem C1_pitch_in_range_witness:
  "pitch_in_range (Pitch (mouseRun (NewCamera\<lparr>Position := (Fin 0, Fin 0, Fin 15)\<rparr>)
        (take 3 [(Fin 0, Fin 0), (NaN, Fin (- 2000)), (PInf, Fin 5000)])))
   \<and> pitch_in_range (Pitch (callbackRun (NewCamera\<lparr>Position := (Fin 0, Fin 0, Fin 15)\<rparr>)
        (take 3 [(Fin 0, Fin 0), (NaN, Fin (- 2000)), (PInf, Fin 5000)])))"
  using C1_pitch_in_range [of "[(Fin 0, Fin 0), (NaN, Fin (- 2000)), (PInf, Fin 5000)]"
      "(Fin 0, Fin 0, Fin 15)" 3]
  by simp

section \<open>The first cursor sample\<close>

lemma HandleMouseMovement_first:
  "firstMouse c \<Longrightarrow>
     HandleMouseMovement c xpos ypos = c\<lparr>lastX := xpos, lastY := ypos, firstMouse := False\<rparr>"
  by (simp add: HandleMouseMovement_def)

lemma HandleMouseMovement_not_first [simp]: "\<not> firstMouse (HandleMouseMovement c xpos ypos)"
  by (simp add: HandleMouseMovement_def Let_def)

lemma cursorPosCallback_not_first [simp]: "\<not> firstMouse (cursorPosCallback c xpos ypos)"
  by (simp add: cursorPosCallback_def Let_def)

lemma cursorPosCallback_tracking:
  "\<not> firstMouse c \<Longrightarrow> cursorPosCallback c xpos ypos = HandleMouseMovement c xpos ypos"
  by (simp add: cursorPosCallback_def HandleMouseMovement_def Let_def)

text \<open>
  On the camera as constructed, the callback's fall-through computes a zero offset from a
  finite sample, adds it to yaw and pitch, and recomputes the basis it already has.
\<close>

lemma cursorPosCallback_first_zero_offset:
  assumes "firstMouse c" and "is_finite (MouseSens c)"
    and "\<not> fgt (Pitch c) (Fin 89)" and "\<not> flt (Pitch c) (Fin (- 89))"
  shows "cursorPosCallback c (Fin x) (Fin y)
       = updateCameraVectors (c\<lparr>firstMouse := False, lastX := Fin x, lastY := Fin y\<rparr>)"
proof -
  from assms(2) obtain m where "MouseSens c = Fin m"
    by (auto simp: is_finite_iff)
  with assms(1,3,4) show ?thesis
    by (simp add: cursorPosCallback_def fsub_def Let_def)
qed

lemma cursorPosCallback_first_finite:
  "cursorPosCallback (NewCamera\<lparr>Position := pos\<rparr>) (Fin x) (Fin y) =
     NewCamera\<lparr>Position := pos, lastX := Fin x, lastY := Fin y, firstMouse := False\<rparr>"
proof -
  have "cursorPosCallback (NewCamera\<lparr>Position := pos\<rparr>) (Fin x) (Fin y)
      = updateCameraVectors
          (NewCamera\<lparr>Position := pos, firstMouse := False, lastX := Fin x, lastY := Fin y\<rparr>)"
    by (rule cursorPosCallback_first_zero_offset) (simp_all add: NewCamera_val fgt_def)
  then show ?thesis
    by (simp add: updateCameraVectors_commute updateCameraVectors_NewCamera)
qed

lemma mouseRun_Nil [simp]: "mouseRun c [] = c"
  by (simp add: mouseRun_def)

lemma callbackRun_Nil [simp]: "callbackRun c [] = c"
  by (simp add: callbackRun_def)

lemma mouseRun_Cons:
  "mouseRun c ((xpos, ypos) # rest) = mouseRun (HandleMouseMovement c xpos ypos) rest"
  by (simp add: mouseRun_def)

lemma callbackRun_Cons:
  "callbackRun c ((xpos, ypos) # rest) = callbackRun (cursorPosCallback c xpos ypos) rest"
  by (simp add: callbackRun_def)

lemma mouseRun_not_first: "samples \<noteq> [] \<Longrightarrow> \<not> firstMouse (mouseRun c samples)"
  by (induction samples arbitrary: c rule: rev_induct) (auto simp: mouseRun_def)

lemma callbackRun_not_first: "samples \<noteq> [] \<Longrightarrow> \<not> firstMouse (callbackRun c samples)"
  by (induction samples arbitrary: c rule: rev_induct) (auto simp: callbackRun_def)

lemma callbackRun_tracking:
  "\<not> firstMouse c \<Longrightarrow> callbackRun c samples = mouseRun c samples"
proof (induction samples arbitrary: c)
  case Nil
  show ?case by simp
next
  case (Cons s samples)
  obtain xpos ypos where s: "s = (xpos, ypos)"
    by (cases s)
  have "callbackRun (cursorPosCallback c xpos ypos) samples
      = mouseRun (cursorPosCallback c xpos ypos) samples"
    by (rule Cons.IH) simp
  with Cons.prems show ?case
    by (simp add: s mouseRun_Cons callbackRun_Cons cursorPosCallback_tracking)
qed

text \<open>
  C2. As stated, for every pair of coordinates, the claim fails of the cursor callback that
  \<^verbatim>\<open>main\<close> registers: its first-sample branch does not return, the horizontal offset
  \<^verbatim>\<open>xpos - camera.lastX\<close> is then \<open>NaN - NaN = NaN\<close> for a NaN coordinate, and the yaw
  becomes NaN on the first call.
\<close>

theorem C2_first_call_nan_counterexample:
  "Yaw (cursorPosCallback NewCamera NaN (Fin 0)) \<noteq> Yaw NewCamera"
  by (simp add: NewCamera_val cursorPosCallback_def fsub_def fgt_def Let_def)

text \<open>
  C2, amended. While the first-sample flag is set, \<^verbatim>\<open>HandleMouseMovement\<close> changes
  nothing but the cursor baseline, which becomes the coordinates passed, and the flag,
  which it clears: this holds for every camera and every pair of coordinates, NaN and the
  infinities included, so yaw, pitch and position are unchanged. The cursor callback of
  \<^verbatim>\<open>main\<close> has the same effect on the camera as constructed (with any position set
  afterwards) for every pair of finite coordinates. After one call or more of either, on
  any camera and with any coordinates, the flag is clear: it is never set again.
\<close>

theorem C2_first_call:
  "(firstMouse c \<longrightarrow>
      HandleMouseMovement c xpos ypos = c\<lparr>lastX := xpos, lastY := ypos, firstMouse := False\<rparr>)
   \<and> (is_finite xpos \<and> is_finite ypos \<longrightarrow>
        cursorPosCallback (NewCamera\<lparr>Position := pos\<rparr>) xpos ypos
          = NewCamera\<lparr>Position := pos, lastX := xpos, lastY := ypos, firstMouse := False\<rparr>)
   \<and> (samples \<noteq> [] \<longrightarrow>
        \<not> firstMouse (mouseRun c samples) \<and> \<not> firstMouse (callbackRun c samples))"
proof (intro conjI impI)
  assume "firstMouse c"
  then show "HandleMouseMovement c xpos ypos
      = c\<lparr>lastX := xpos, lastY := ypos, firstMouse := False\<rparr>"
    by (rule HandleMouseMovement_first)
next
  assume "is_finite xpos \<and> is_finite ypos"
  then obtain x y where "xpos = Fin x" "ypos = Fin y"
    by (auto simp: is_finite_iff)
  then show "cursorPosCallback (NewCamera\<lparr>Position := pos\<rparr>) xpos ypos
      = NewCamera\<lparr>Position := pos, lastX := xpos, lastY := ypos, firstMouse := False\<rparr>"
    by (simp only: cursorPosCallback_first_finite)
next
  assume "samples \<noteq> []"
  then show "\<not> firstMouse (mouseRun c samples)" "\<not> firstMouse (callbackRun c samples)"
    by (simp_all add: mouseRun_not_first callbackRun_not_first)
qed

theorem C2_first_call_witness:
  "HandleMouseMovement NewCamera NaN PInf
     = NewCamera\<lparr>lastX := NaN, lastY := PInf, firstMouse := False\<rparr>
   \<and> cursorPosCallback (NewCamera\<lparr>Position := (Fin 0, Fin 0, Fin 15)\<rparr>) (Fin 400) (Fin 300)
     = NewCamera\<lparr>Position := (Fin 0, Fin 0, Fin 15), lastX := Fin 400, lastY := Fin 300,
         firstMouse := False\<rparr>
   \<and> \<not> firstMouse (mouseRun NewCamera [(NaN, PInf), (Fin 1, Fin 2)])
   \<and> \<not> firstMouse (callbackRun NewCamera [(NaN, PInf), (Fin 1, Fin 2)])"
  using C2_first_call [of NewCamera NaN PInf]
    C2_first_call [of NewCamera "Fin 400" "Fin 300" "(Fin 0, Fin 0, Fin 15)"
      "[(NaN, PInf), (Fin 1, Fin 2)]"]
  by (simp add: NewCamera_val)

text \<open>
  C9. As stated, for every sequence of cursor samples, the claim fails: on a first sample
  with a NaN coordinate \<^verbatim>\<open>HandleMouseMovement\<close> returns with the yaw of the
  constructor, and the callback falls through with the offset \<open>NaN - NaN\<close> and makes the
  yaw NaN.
\<close>

theorem C9_callback_differs_counterexample:
  "callbackRun NewCamera [(NaN, Fin 0)] \<noteq> mouseRun NewCamera [(NaN, Fin 0)]"
proof
  assume "callbackRun NewCamera [(NaN, Fin 0)] = mouseRun NewCamera [(NaN, Fin 0)]"
  then have "Yaw (callbackRun NewCamera [(NaN, Fin 0)]) = Yaw (mouseRun NewCamera [(NaN, Fin 0)])"
    by simp
  then show False
    by (simp add: callbackRun_def mouseRun_def NewCamera_val cursorPosCallback_def
        HandleMouseMovement_def fsub_def fgt_def Let_def)
qed

text \<open>
  C9, amended. Starting from the camera that \<^verbatim>\<open>NewCamera\<close> produces, with any position
  set afterwards, for every sequence of cursor samples whose first sample has two finite
  coordinates (the later samples are arbitrary, NaN and the infinities included), the
  cursor callback of \<^verbatim>\<open>main\<close> and \<^verbatim>\<open>HandleMouseMovement\<close> end in the same camera:
  all twelve fields are equal.
\<close>

theorem C9_callback_equals_method:
  assumes "first_sample_finite samples"
  shows "callbackRun (NewCamera\<lparr>Position := pos\<rparr>) samples
       = mouseRun (NewCamera\<lparr>Position := pos\<rparr>) samples"
proof (cases samples)
  case Nil
  then show ?thesis by simp
next
  case (Cons s rest)
  with assms obtain x y where s: "s = (Fin x, Fin y)"
    by (cases s) (auto simp: is_finite_iff)
  have first: "firstMouse (NewCamera\<lparr>Position := pos\<rparr>)"
    by (simp add: NewCamera_val)
  have "cursorPosCallback (NewCamera\<lparr>Position := pos\<rparr>) (Fin x) (Fin y)
      = HandleMouseMovement (NewCamera\<lparr>Position := pos\<rparr>) (Fin x) (Fin y)"
    by (simp only: cursorPosCallback_first_finite HandleMouseMovement_first [OF first])
  then show ?thesis
    by (simp add: Cons s mouseRun_Cons callbackRun_Cons callbackRun_tracking)
qed

theorem C9_callback_equals_method_witness:
  "callbackRun (NewCamera\<lparr>Position := (Fin 0, Fin 0, Fin 15)\<rparr>)
       [(Fin 400, Fin 300), (Fin 410, Fin 280), (NaN, PInf)]
     = mouseRun (NewCamera\<lparr>Position := (Fin 0, Fin 0, Fin 15)\<rparr>)
       [(Fin 400, Fin 300), (Fin 410, Fin 280), (NaN, PInf)]"
  using C9_callback_equals_method
    [of "[(Fin 400, Fin 300), (Fin 410, Fin 280), (NaN, PInf)]" "(Fin 0, Fin 0, Fin 15)"]
  by simp

section \<open>The basis vectors\<close>

lemma Len_Fin: "Len (Fin a, Fin b, Fin c) = Fin (sqrt (a * a + b * b + c * c))"
proof -
  have "\<not> a * a + b * b + c * c < 0"
    by (simp add: not_less add_nonneg_nonneg)
  then show ?thesis by simp
qed

lemma Normalize_Fin:
  assumes "0 < n" and "a * a + b * b + c * c = n * n"
  shows "Normalize (Fin a, Fin b, Fin c) = (Fin (a / n), Fin (b / n), Fin (c / n))"
proof -
  have "sqrt (a * a + b * b + c * c) = n"
    using assms by (simp add: real_sqrt_mult_self)
  with assms(1) show ?thesis
    by (simp add: Normalize_def Len_Fin del: Len.simps)
qed

lemma DegToRad_Fin: "DegToRad (Fin a) = Fin (a * pi / 180)"
  by (simp add: DegToRad_def)

text \<open>A pitch between \<open>-89\<close> and \<open>89\<close> degrees has a positive cosine.\<close>

lemma cos_rad_pos:
  assumes "- 89 \<le> p" and "p \<le> 89"
  shows "0 < cos (p * pi / 180)"
proof (rule cos_gt_zero_pi)
  have "p * pi \<le> 89 * pi"
    using assms(2) pi_gt_zero by (simp add: mult_right_mono)
  moreover have "(- 89) * pi \<le> p * pi"
    by (rule mult_right_mono) (use assms(1) pi_gt_zero in simp_all)
  ultimately show "- (pi / 2) < p * pi / 180" "p * pi / 180 < pi / 2"
    using pi_gt_zero by linarith+
qed

lemma sin_cos_squared_add4: "sin x * sin x + cos x * cos x = (1::real)"
  using sin_cos_squared_add [of x] by (simp add: power2_eq_square)

text \<open>
  The basis in closed form, for a finite yaw \<open>y\<close> and a finite pitch \<open>p\<close> of positive
  cosine, in degrees, with \<open>Y\<close> and \<open>P\<close> the two angles in radians.
\<close>

lemma updateCameraVectors_finite:
  assumes yaw: "Yaw c = Fin y" and pitch: "Pitch c = Fin p"
    and up: "WorldUp c = (Fin 0, Fin 1, Fin 0)"
    and pos: "0 < cos (p * pi / 180)"
  defines "Y \<equiv> y * pi / 180" and "P \<equiv> p * pi / 180"
  shows "updateCameraVectors c =
           c\<lparr>Front := (Fin (cos Y * cos P), Fin (sin P), Fin (sin Y * cos P)),
             Right := (Fin (- sin Y), Fin 0, Fin (cos Y)),
             Up := (Fin (- (cos Y * sin P)), Fin (cos P), Fin (- (sin Y * sin P)))\<rparr>"
proof -
  have cP: "0 < cos P"
    using pos by (simp add: P_def)
  have sc: "sin Y * sin Y + cos Y * cos Y = 1" "sin P * sin P + cos P * cos P = 1"
    by (rule sin_cos_squared_add4)+
  have "(cos Y * cos P) * (cos Y * cos P) + sin P * sin P + (sin Y * cos P) * (sin Y * cos P)
      = (sin Y * sin Y + cos Y * cos Y) * (cos P * cos P) + sin P * sin P"
    by algebra
  also have "\<dots> = 1 * 1"
    using sc by simp
  finally have e1:
    "(cos Y * cos P) * (cos Y * cos P) + sin P * sin P + (sin Y * cos P) * (sin Y * cos P) = 1 * 1" .
  have front: "Normalize (Fin (cos Y * cos P), Fin (sin P), Fin (sin Y * cos P))
      = (Fin (cos Y * cos P), Fin (sin P), Fin (sin Y * cos P))"
    using Normalize_Fin [OF zero_less_one e1] by simp
  have cross1:
    "Cross (Fin (cos Y * cos P), Fin (sin P), Fin (sin Y * cos P)) (Fin 0, Fin 1, Fin 0)
      = (Fin (- (sin Y * cos P)), Fin 0, Fin (cos Y * cos P))"
    by (simp add: fsub_def)
  have "(- (sin Y * cos P)) * (- (sin Y * cos P)) + 0 * 0 + (cos Y * cos P) * (cos Y * cos P)
      = (sin Y * sin Y + cos Y * cos Y) * (cos P * cos P)"
    by algebra
  also have "\<dots> = cos P * cos P"
    using sc by simp
  finally have e2:
    "(- (sin Y * cos P)) * (- (sin Y * cos P)) + 0 * 0 + (cos Y * cos P) * (cos Y * cos P)
      = cos P * cos P" .
  have right: "Normalize (Fin (- (sin Y * cos P)), Fin 0, Fin (cos Y * cos P))
      = (Fin (- sin Y), Fin 0, Fin (cos Y))"
    using Normalize_Fin [OF cP e2] cP by simp
  have "cos P * (cos Y * cos Y) + cos P * (sin Y * sin Y)
      = (sin Y * sin Y + cos Y * cos Y) * cos P"
    by algebra
  then have mid: "cos P * (cos Y * cos Y) + cos P * (sin Y * sin Y) = cos P"
    using sc by simp
  have cross2:
    "Cross (Fin (- sin Y), Fin 0, Fin (cos Y))
       (Fin (cos Y * cos P), Fin (sin P), Fin (sin Y * cos P))
      = (Fin (- (cos Y * sin P)), Fin (cos P), Fin (- (sin Y * sin P)))"
    by (simp add: fsub_def algebra_simps mid)
  have "(- (cos Y * sin P)) * (- (cos Y * sin P)) + cos P * cos P
        + (- (sin Y * sin P)) * (- (sin Y * sin P))
      = (sin Y * sin Y + cos Y * cos Y) * (sin P * sin P) + cos P * cos P"
    by algebra
  also have "\<dots> = 1 * 1"
    using sc by simp
  finally have e3:
    "(- (cos Y * sin P)) * (- (cos Y * sin P)) + cos P * cos P
        + (- (sin Y * sin P)) * (- (sin Y * sin P)) = 1 * 1" .
  have upv: "Normalize (Fin (- (cos Y * sin P)), Fin (cos P), Fin (- (sin Y * sin P)))
      = (Fin (- (cos Y * sin P)), Fin (cos P), Fin (- (sin Y * sin P)))"
    using Normalize_Fin [OF zero_less_one e3] by simp
  show ?thesis
    unfolding updateCameraVectors_def Let_def
    by (simp add: yaw pitch up DegToRad_Fin Y_def [symmetric] P_def [symmetric]
        front cross1 right cross2 upv del: Cross.simps)
qed

lemma front_at_initial_angles:
  "Yaw c = Fin (- 90) \<Longrightarrow> Pitch c = Fin 0 \<Longrightarrow> Front (updateCameraVectors c) = (Fin 0, Fin 0, Fin (- 1))"
  by (simp add: updateCameraVectors_def DegToRad_def Normalize_def Let_def)

text \<open>
  C4. The basis recomputation sets the front vector to the normalised vector
  \<open>(cos (rad yaw) * cos (rad pitch), sin (rad pitch), sin (rad yaw) * cos (rad pitch))\<close>, the
  right vector to the normalised cross product of front and the world's up vector, and the
  up vector to the normalised cross product of right and front, and changes no other field;
  this holds for every camera. Every cursor call that changes yaw or pitch ends with the
  recomputation: the camera it returns is a fixed point of \<^verbatim>\<open>updateCameraVectors\<close>, so
  its basis is the one computed from its yaw and pitch. For a yaw of \<open>-90\<close> and a pitch of
  \<open>0\<close> the front vector is \<open>(0, 0, -1)\<close>, exactly in this model of exact arithmetic, hence
  within every tolerance.
\<close>

theorem C4_basis:
  "updateCameraVectors c =
     (let front = Normalize
            (fmul (fcos (DegToRad (Yaw c))) (fcos (DegToRad (Pitch c))),
             fsin (DegToRad (Pitch c)),
             fmul (fsin (DegToRad (Yaw c))) (fcos (DegToRad (Pitch c))));
          right = Normalize (Cross front (WorldUp c));
          up = Normalize (Cross right front)
      in c\<lparr>Front := front, Right := right, Up := up\<rparr>)
   \<and> (\<not> firstMouse c \<longrightarrow>
        HandleMouseMovement c xpos ypos = updateCameraVectors (HandleMouseMovement c xpos ypos))
   \<and> cursorPosCallback c xpos ypos = updateCameraVectors (cursorPosCallback c xpos ypos)
   \<and> (Yaw c = Fin (- 90) \<and> Pitch c = Fin 0 \<longrightarrow>
        Front (updateCameraVectors c) = (Fin 0, Fin 0, Fin (- 1)))"
proof (intro conjI impI)
  show "updateCameraVectors c =
     (let front = Normalize
            (fmul (fcos (DegToRad (Yaw c))) (fcos (DegToRad (Pitch c))),
             fsin (DegToRad (Pitch c)),
             fmul (fsin (DegToRad (Yaw c))) (fcos (DegToRad (Pitch c))));
          right = Normalize (Cross front (WorldUp c));
          up = Normalize (Cross right front)
      in c\<lparr>Front := front, Right := right, Up := up\<rparr>)"
    by (simp add: updateCameraVectors_def Let_def)
next
  assume "\<not> firstMouse c"
  then show "HandleMouseMovement c xpos ypos = updateCameraVectors (HandleMouseMovement c xpos ypos)"
    by (simp add: HandleMouseMovement_def Let_def)
next
  show "cursorPosCallback c xpos ypos = updateCameraVectors (cursorPosCallback c xpos ypos)"
    by (simp add: cursorPosCallback_def Let_def)
next
  assume "Yaw c = Fin (- 90) \<and> Pitch c = Fin 0"
  then show "Front (updateCameraVectors c) = (Fin 0, Fin 0, Fin (- 1))"
    by (simp add: front_at_initial_angles)
qed

theorem C4_basis_witness:
  "HandleMouseMovement (NewCamera\<lparr>firstMouse := False\<rparr>) (Fin 900) (Fin 0)
     = updateCameraVectors (HandleMouseMovement (NewCamera\<lparr>firstMouse := False\<rparr>) (Fin 900) (Fin 0))
   \<and> Front (updateCameraVectors NewCamera) = (Fin 0, Fin 0, Fin (- 1))"
proof
  have tracking: "\<not> firstMouse (NewCamera\<lparr>firstMouse := False\<rparr>)"
    by simp
  show "HandleMouseMovement (NewCamera\<lparr>firstMouse := False\<rparr>) (Fin 900) (Fin 0)
     = updateCameraVectors (HandleMouseMovement (NewCamera\<lparr>firstMouse := False\<rparr>) (Fin 900) (Fin 0))"
    by (rule mp [OF C4_basis [THEN conjunct2, THEN conjunct1] tracking])
next
  have angles: "Yaw NewCamera = Fin (- 90) \<and> Pitch NewCamera = Fin 0"
    by (simp add: NewCamera_val)
  show "Front (updateCameraVectors NewCamera) = (Fin 0, Fin 0, Fin (- 1))"
    by (rule mp [OF C4_basis [THEN conjunct2, THEN conjunct2, THEN conjunct2] angles])
qed

lemma Dot_Fin: "Dot (Fin a, Fin b, Fin c) (Fin d, Fin e, Fin f) = Fin (a * d + b * e + c * f)"
  by simp

lemma Len_unit: "a * a + b * b + c * c = 1 \<Longrightarrow> Len (Fin a, Fin b, Fin c) = Fin 1"
  by (simp add: Len_Fin del: Len.simps)

lemma Dot_zero: "a * d + b * e + c * f = 0 \<Longrightarrow> Dot (Fin a, Fin b, Fin c) (Fin d, Fin e, Fin f) = Fin 0"
  by simp

lemma updateCameraVectors_orthonormal:
  assumes "Yaw c = Fin y" and "pitch_in_range (Pitch c)" and "WorldUp c = (Fin 0, Fin 1, Fin 0)"
  shows "orthonormal (Front (updateCameraVectors c)) (Right (updateCameraVectors c)) (Up (updateCameraVectors c))"
proof -
  from assms(2) obtain p where p: "Pitch c = Fin p" "- 89 \<le> p" "p \<le> 89"
    by (auto simp: pitch_in_range_iff)
  define Y where "Y = y * pi / 180"
  define P where "P = p * pi / 180"
  have sc: "sin Y * sin Y + cos Y * cos Y = 1" "sin P * sin P + cos P * cos P = 1"
    by (rule sin_cos_squared_add4)+
  have eq: "updateCameraVectors c =
           c\<lparr>Front := (Fin (cos Y * cos P), Fin (sin P), Fin (sin Y * cos P)),
             Right := (Fin (- sin Y), Fin 0, Fin (cos Y)),
             Up := (Fin (- (cos Y * sin P)), Fin (cos P), Fin (- (sin Y * sin P)))\<rparr>"
    unfolding Y_def P_def
    by (rule updateCameraVectors_finite [OF assms(1) p(1) assms(3) cos_rad_pos [OF p(2,3)]])
  let ?F = "(Fin (cos Y * cos P), Fin (sin P), Fin (sin Y * cos P))"
  let ?R = "(Fin (- sin Y), Fin 0, Fin (cos Y))"
  let ?U = "(Fin (- (cos Y * sin P)), Fin (cos P), Fin (- (sin Y * sin P)))"
  have fields: "Front (updateCameraVectors c) = ?F" "Right (updateCameraVectors c) = ?R"
    "Up (updateCameraVectors c) = ?U"
    by (simp_all add: eq)
  have "(cos Y * cos P) * (- sin Y) + sin P * 0 + (sin Y * cos P) * cos Y = 0"
    by algebra
  then have d1: "Dot ?F ?R = Fin 0"
    by (rule Dot_zero)
  have "(cos Y * cos P) * (- (cos Y * sin P)) + sin P * cos P + (sin Y * cos P) * (- (sin Y * sin P))
     = (1 - (sin Y * sin Y + cos Y * cos Y)) * (sin P * cos P)"
    by algebra
  also have "\<dots> = 0"
    by (simp only: sc) simp
  finally have d2: "Dot ?F ?U = Fin 0"
    by (rule Dot_zero)
  have "(- sin Y) * (- (cos Y * sin P)) + 0 * cos P + cos Y * (- (sin Y * sin P)) = 0"
    by algebra
  then have d3: "Dot ?R ?U = Fin 0"
    by (rule Dot_zero)
  have "(cos Y * cos P) * (cos Y * cos P) + sin P * sin P + (sin Y * cos P) * (sin Y * cos P)
      = (sin Y * sin Y + cos Y * cos Y) * (cos P * cos P) + sin P * sin P"
    by algebra
  also have "\<dots> = 1"
    by (simp only: sc) (simp add: sc add.commute)
  finally have l1: "Len ?F = Fin 1"
    by (rule Len_unit)
  have "(- sin Y) * (- sin Y) + 0 * 0 + cos Y * cos Y = sin Y * sin Y + cos Y * cos Y"
    by algebra
  also have "\<dots> = 1"
    by (rule sc)
  finally have l2: "Len ?R = Fin 1"
    by (rule Len_unit)
  have "(- (cos Y * sin P)) * (- (cos Y * sin P)) + cos P * cos P
        + (- (sin Y * sin P)) * (- (sin Y * sin P))
      = (sin Y * sin Y + cos Y * cos Y) * (sin P * sin P) + cos P * cos P"
    by algebra
  also have "\<dots> = 1"
    by (simp only: sc) (simp add: sc)
  finally have l3: "Len ?U = Fin 1"
    by (rule Len_unit)
  show ?thesis
    unfolding orthonormal_def fields d1 d2 d3 l1 l2 l3
    by (simp add: feq_def)
qed


lemma close_to_refl: "0 \<le> tol \<Longrightarrow> close_to tol (Fin a) (Fin a)"
  by (simp add: close_to_def fsub_def)

lemma not_close_to_NaN: "\<not> close_to tol NaN y"
  by (simp add: close_to_def fsub_def)

lemma updateCameraVectors_orthonormal_within:
  assumes "Yaw c = Fin y" and "pitch_in_range (Pitch c)" and "WorldUp c = (Fin 0, Fin 1, Fin 0)"
    and "0 \<le> tol"
  shows "orthonormal_within tol (Front (updateCameraVectors c)) (Right (updateCameraVectors c))
           (Up (updateCameraVectors c))"
  using updateCameraVectors_orthonormal [OF assms(1,2,3)] assms(4)
  by (auto simp: orthonormal_def orthonormal_within_def feq_def close_to_refl)

lemma Len_Front_nan_yaw: "Yaw c = NaN \<Longrightarrow> Len (Front (updateCameraVectors c)) = NaN"
  by (simp add: updateCameraVectors_def Normalize_def DegToRad_def Let_def)

text \<open>Two cursor calls on the camera as constructed, the second with a NaN horizontal coordinate.\<close>

lemma nan_yaw_camera:
  "HandleMouseMovement (HandleMouseMovement NewCamera (Fin 0) (Fin 0)) NaN (Fin 0)
    = updateCameraVectors
        (NewCamera\<lparr>Yaw := NaN, lastX := NaN, lastY := Fin 0, firstMouse := False\<rparr>)"
  by (simp add: HandleMouseMovement_first NewCamera_val HandleMouseMovement_def fsub_def fgt_def
      Let_def)

text \<open>
  C6. As stated, for any yaw, the claim fails: a yaw that is NaN (or infinite) has no
  cosine, the three vectors are NaN, and no dot product or length of theirs is within any
  tolerance of a number; here the tolerance is \<open>10^-5\<close>. The camera below is reached by two
  cursor calls, the second with a NaN horizontal coordinate; its pitch is \<open>0\<close>.
\<close>

theorem C6_nan_yaw_counterexample:
  "pitch_in_range
     (Pitch (HandleMouseMovement (HandleMouseMovement NewCamera (Fin 0) (Fin 0)) NaN (Fin 0)))
   \<and> \<not> orthonormal_within (1 / 100000)
       (Front (HandleMouseMovement (HandleMouseMovement NewCamera (Fin 0) (Fin 0)) NaN (Fin 0)))
       (Right (HandleMouseMovement (HandleMouseMovement NewCamera (Fin 0) (Fin 0)) NaN (Fin 0)))
       (Up (HandleMouseMovement (HandleMouseMovement NewCamera (Fin 0) (Fin 0)) NaN (Fin 0)))"
  unfolding nan_yaw_camera
  by (simp add: Len_Front_nan_yaw orthonormal_within_def not_close_to_NaN pitch_in_range_def
      NewCamera_val del: Len.simps)

text \<open>
  C6, amended. After every execution of the basis recomputation, for any finite yaw whose
  radians the program can compute (the \<^verbatim>\<open>float32\<close> product of the yaw and
  \<^verbatim>\<open>float32(math.Pi)\<close> does not overflow: a magnitude below about \<open>1.0831 * 10^38\<close>
  degrees) and any pitch in \<open>[-89, 89]\<close>, with the world's up vector \<open>(0, 1, 0)\<close> that the
  constructor sets, the vectors front, right and up are pairwise orthogonal and each has unit
  length within a tolerance of \<open>10^-5\<close>: each of the three dot products is within \<open>10^-5\<close> of
  \<open>0\<close> and each of the three lengths within \<open>10^-5\<close> of \<open>1\<close>. (The model computes the dot
  products \<open>0\<close> and the lengths \<open>1\<close>; the rounding of the program, which the model leaves
  out, moves them by a few units of \<open>10^-7\<close>.)
\<close>

theorem C6_orthonormal:
  assumes "radians_in_range (Yaw c)" and "pitch_in_range (Pitch c)"
    and "WorldUp c = (Fin 0, Fin 1, Fin 0)"
  shows "orthonormal_within (1 / 100000)
           (Front (updateCameraVectors c)) (Right (updateCameraVectors c))
           (Up (updateCameraVectors c))"
proof -
  from assms(1) obtain y where "Yaw c = Fin y"
    by (cases "Yaw c") simp_all
  then show ?thesis
    using assms(2,3) by (rule updateCameraVectors_orthonormal_within) simp
qed

theorem C6_orthonormal_witness:
  "orthonormal_within (1 / 100000)
     (Front (updateCameraVectors (NewCamera\<lparr>Yaw := Fin 30, Pitch := Fin 45\<rparr>)))
     (Right (updateCameraVectors (NewCamera\<lparr>Yaw := Fin 30, Pitch := Fin 45\<rparr>)))
     (Up (updateCameraVectors (NewCamera\<lparr>Yaw := Fin 30, Pitch := Fin 45\<rparr>)))"
  using C6_orthonormal [of "NewCamera\<lparr>Yaw := Fin 30, Pitch := Fin 45\<rparr>"]
  by (simp add: NewCamera_val pitch_in_range_def float32_pi_def float32_overflow_def)

section \<open>No division by zero\<close>

lemma fge_quarter_nonzero: "fge d (Fin 0.25) \<Longrightarrow> \<not> feq d (Fin 0)"
  by (cases d) (simp_all add: fge_def feq_def)

lemma Update_checked_total: "Update_checked fc now = Some (Update fc now)"
  by (simp add: Update_checked_def Update_def Let_def fge_quarter_nonzero)

lemma Normalize_checked_nonzero:
  "\<not> feq (Len v) (Fin 0) \<Longrightarrow> Normalize_checked v = Some (Normalize v)"
  by (simp add: Normalize_checked_def Normalize_def)

lemma updateCameraVectors_checked_nonzero:
  assumes "\<not> feq (Len (fmul (fcos (DegToRad (Yaw c))) (fcos (DegToRad (Pitch c))),
             fsin (DegToRad (Pitch c)),
             fmul (fsin (DegToRad (Yaw c))) (fcos (DegToRad (Pitch c))))) (Fin 0)"
    and "\<not> feq (Len (Cross (Front (updateCameraVectors c)) (WorldUp c))) (Fin 0)"
    and "\<not> feq (Len (Cross (Right (updateCameraVectors c)) (Front (updateCameraVectors c)))) (Fin 0)"
  shows "updateCameraVectors_checked c = Some (updateCameraVectors c)"
  using assms
  by (simp add: updateCameraVectors_checked_def updateCameraVectors_def Let_def
      Normalize_checked_nonzero del: Len.simps Cross.simps)

lemma Len_scaled: "0 < n \<Longrightarrow> a * a + b * b + c * c = n * n \<Longrightarrow> Len (Fin a, Fin b, Fin c) = Fin n"
  by (simp add: Len_Fin real_sqrt_mult_self del: Len.simps)

lemma updateCameraVectors_checked_finite_yaw:
  assumes yaw: "Yaw c = Fin y" and pitch: "Pitch c = Fin p"
    and up: "WorldUp c = (Fin 0, Fin 1, Fin 0)"
    and pos: "0 < cos (p * pi / 180)"
  shows "updateCameraVectors_checked c = Some (updateCameraVectors c)"
proof (rule updateCameraVectors_checked_nonzero)
  define Y where "Y = y * pi / 180"
  define P where "P = p * pi / 180"
  have cP: "0 < cos P"
    using pos by (simp add: P_def)
  have sc: "sin Y * sin Y + cos Y * cos Y = 1" "sin P * sin P + cos P * cos P = 1"
    by (rule sin_cos_squared_add4)+
  note eq = updateCameraVectors_finite [OF yaw pitch up pos, folded Y_def P_def]
  have "(cos Y * cos P) * (cos Y * cos P) + sin P * sin P + (sin Y * cos P) * (sin Y * cos P)
      = (sin Y * sin Y + cos Y * cos Y) * (cos P * cos P) + sin P * sin P"
    by algebra
  also have "\<dots> = 1"
    by (simp only: sc) (simp add: sc add.commute)
  finally have "Len (Fin (cos Y * cos P), Fin (sin P), Fin (sin Y * cos P)) = Fin 1"
    by (rule Len_unit)
  then show "\<not> feq (Len (fmul (fcos (DegToRad (Yaw c))) (fcos (DegToRad (Pitch c))),
             fsin (DegToRad (Pitch c)),
             fmul (fsin (DegToRad (Yaw c))) (fcos (DegToRad (Pitch c))))) (Fin 0)"
    by (simp add: yaw pitch DegToRad_Fin Y_def [symmetric] P_def [symmetric] feq_def del: Len.simps)
  have "(- (sin Y * cos P)) * (- (sin Y * cos P)) + 0 * 0 + (cos Y * cos P) * (cos Y * cos P)
      = (sin Y * sin Y + cos Y * cos Y) * (cos P * cos P)"
    by algebra
  also have "\<dots> = cos P * cos P"
    by (simp only: sc mult_1)
  finally have "Len (Fin (- (sin Y * cos P)), Fin 0, Fin (cos Y * cos P)) = Fin (cos P)"
    by (rule Len_scaled [OF cP])
  moreover have "Cross (Front (updateCameraVectors c)) (WorldUp c)
      = (Fin (- (sin Y * cos P)), Fin 0, Fin (cos Y * cos P))"
    by (simp add: eq up fsub_def)
  ultimately show "\<not> feq (Len (Cross (Front (updateCameraVectors c)) (WorldUp c))) (Fin 0)"
    using cP by (simp add: feq_def del: Len.simps Cross.simps)
  have "cos P * (cos Y * cos Y) + cos P * (sin Y * sin Y)
      = (sin Y * sin Y + cos Y * cos Y) * cos P"
    by algebra
  then have mid: "cos P * (cos Y * cos Y) + cos P * (sin Y * sin Y) = cos P"
    using sc by simp
  have cross2: "Cross (Right (updateCameraVectors c)) (Front (updateCameraVectors c))
      = (Fin (- (cos Y * sin P)), Fin (cos P), Fin (- (sin Y * sin P)))"
    by (simp add: eq fsub_def algebra_simps mid)
  have "(- (cos Y * sin P)) * (- (cos Y * sin P)) + cos P * cos P
        + (- (sin Y * sin P)) * (- (sin Y * sin P))
      = (sin Y * sin Y + cos Y * cos Y) * (sin P * sin P) + cos P * cos P"
    by algebra
  also have "\<dots> = 1"
    by (simp only: sc) (simp add: sc)
  finally have "Len (Fin (- (cos Y * sin P)), Fin (cos P), Fin (- (sin Y * sin P))) = Fin 1"
    by (rule Len_unit)
  then show "\<not> feq (Len (Cross (Right (updateCameraVectors c)) (Front (updateCameraVectors c)))) (Fin 0)"
    by (simp add: cross2 feq_def del: Len.simps Cross.simps)
qed

lemma updateCameraVectors_checked_nonfinite_yaw:
  assumes yaw: "\<not> is_finite (Yaw c)" and pitch: "Pitch c = Fin p"
    and up: "WorldUp c = (Fin 0, Fin 1, Fin 0)"
  shows "updateCameraVectors_checked c = Some (updateCameraVectors c)"
  using yaw
  by (cases "Yaw c")
    (simp_all add: updateCameraVectors_checked_def updateCameraVectors_def Normalize_checked_def
      Normalize_def DegToRad_def pitch up feq_def fsub_def Let_def)

lemma updateCameraVectors_checked_total:
  assumes "pitch_in_range (Pitch c)" and "WorldUp c = (Fin 0, Fin 1, Fin 0)"
  shows "updateCameraVectors_checked c = Some (updateCameraVectors c)"
proof -
  from assms(1) obtain p where p: "Pitch c = Fin p" "- 89 \<le> p" "p \<le> 89"
    by (auto simp: pitch_in_range_iff)
  show ?thesis
  proof (cases "is_finite (Yaw c)")
    case True
    then obtain y where "Yaw c = Fin y"
      by (auto simp: is_finite_iff)
    then show ?thesis
      using p(1) assms(2) cos_rad_pos [OF p(2,3)] by (rule updateCameraVectors_checked_finite_yaw)
  next
    case False
    then show ?thesis
      using p(1) assms(2) by (rule updateCameraVectors_checked_nonfinite_yaw)
  qed
qed

lemma HandleMouseMovement_WorldUp [simp]:
  "WorldUp (HandleMouseMovement c xpos ypos) = WorldUp c"
  by (simp add: HandleMouseMovement_def Let_def)

lemma cursorPosCallback_WorldUp [simp]:
  "WorldUp (cursorPosCallback c xpos ypos) = WorldUp c"
  by (simp add: cursorPosCallback_def Let_def)

lemma mouseRun_WorldUp: "WorldUp (mouseRun c samples) = WorldUp c"
  by (induction samples arbitrary: c) (auto simp: mouseRun_Cons)

lemma callbackRun_WorldUp: "WorldUp (callbackRun c samples) = WorldUp c"
  by (induction samples arbitrary: c) (auto simp: callbackRun_Cons)

text \<open>
  C7. No operation of the core divides by zero. \<^verbatim>\<open>Update\<close> with its divisor checked
  gives the result of \<^verbatim>\<open>Update\<close> for every counter and every clock reading: the
  division is under the test that the elapsed time is at least \<open>0.25\<close>, which a zero
  divisor fails. The basis recomputation with the three divisors of its normalisations
  checked gives the result of \<^verbatim>\<open>updateCameraVectors\<close> for every camera whose pitch is in
  \<open>[-89, 89]\<close> and whose world up vector is \<open>(0, 1, 0)\<close>, whatever the yaw: no
  normalisation receives a vector of length zero. The cameras that cursor calls with finite
  vertical coordinates reach from the constructed camera are such cameras.
\<close>

theorem C7_no_zero_divisor:
  "Update_checked fc now = Some (Update fc now)
   \<and> (pitch_in_range (Pitch c) \<and> WorldUp c = (Fin 0, Fin 1, Fin 0) \<longrightarrow>
        updateCameraVectors_checked c = Some (updateCameraVectors c))
   \<and> ((\<forall>s \<in> set samples. is_finite (snd s)) \<longrightarrow>
        updateCameraVectors_checked (mouseRun (NewCamera\<lparr>Position := pos\<rparr>) samples)
          = Some (updateCameraVectors (mouseRun (NewCamera\<lparr>Position := pos\<rparr>) samples))
        \<and> updateCameraVectors_checked (callbackRun (NewCamera\<lparr>Position := pos\<rparr>) samples)
          = Some (updateCameraVectors (callbackRun (NewCamera\<lparr>Position := pos\<rparr>) samples)))"
proof (intro conjI impI)
  show "Update_checked fc now = Some (Update fc now)"
    by (rule Update_checked_total)
next
  assume "pitch_in_range (Pitch c) \<and> WorldUp c = (Fin 0, Fin 1, Fin 0)"
  then show "updateCameraVectors_checked c = Some (updateCameraVectors c)"
    by (simp add: updateCameraVectors_checked_total)
next
  assume finite: "\<forall>s \<in> set samples. is_finite (snd s)"
  have up: "WorldUp (NewCamera\<lparr>Position := pos\<rparr>) = (Fin 0, Fin 1, Fin 0)"
    by (simp add: NewCamera_val)
  have "pitch_in_range (Pitch (mouseRun (NewCamera\<lparr>Position := pos\<rparr>) samples))"
    using mouseRun_pitch_inv [OF NewCamera_pitch_inv finite] by (simp add: pitch_inv_def)
  then show "updateCameraVectors_checked (mouseRun (NewCamera\<lparr>Position := pos\<rparr>) samples)
      = Some (updateCameraVectors (mouseRun (NewCamera\<lparr>Position := pos\<rparr>) samples))"
    by (rule updateCameraVectors_checked_total) (simp only: mouseRun_WorldUp up)
  have "pitch_in_range (Pitch (callbackRun (NewCamera\<lparr>Position := pos\<rparr>) samples))"
    using callbackRun_pitch_inv [OF NewCamera_pitch_inv finite] by (simp add: pitch_inv_def)
  then show "updateCameraVectors_checked (callbackRun (NewCamera\<lparr>Position := pos\<rparr>) samples)
      = Some (updateCameraVectors (callbackRun (NewCamera\<lparr>Position := pos\<rparr>) samples))"
    by (rule updateCameraVectors_checked_total) (simp only: callbackRun_WorldUp up)
qed

theorem C7_no_zero_divisor_witness:
  "Update_checked (NewFPSCounter 0 :: 64 word FPSCounter) (3 / 10)
     = Some (Update (NewFPSCounter 0) (3 / 10))
   \<and> updateCameraVectors_checked (NewCamera\<lparr>Yaw := PInf, Pitch := Fin 89\<rparr>)
     = Some (updateCameraVectors (NewCamera\<lparr>Yaw := PInf, Pitch := Fin 89\<rparr>))
   \<and> updateCameraVectors_checked
       (mouseRun (NewCamera\<lparr>Position := (Fin 0, Fin 0, Fin 15)\<rparr>)
          [(Fin 400, Fin 300), (Fin 410, Fin 5000)])
     = Some (updateCameraVectors
       (mouseRun (NewCamera\<lparr>Position := (Fin 0, Fin 0, Fin 15)\<rparr>)
          [(Fin 400, Fin 300), (Fin 410, Fin 5000)]))"
  using C7_no_zero_divisor [of "NewFPSCounter 0 :: 64 word FPSCounter" "3 / 10"
      "NewCamera\<lparr>Yaw := PInf, Pitch := Fin 89\<rparr>"
      "[(Fin 400, Fin 300), (Fin 410, Fin 5000)]" "(Fin 0, Fin 0, Fin 15)"]
  by (simp add: NewCamera_val pitch_in_range_def)

section \<open>The frame-rate counter\<close>

lemma sint_succ:
  fixes x :: "'w::len word"
  assumes "sint x < 2 ^ (LENGTH('w) - 1) - 1"
  shows "sint (x + 1) = sint x + 1"
proof (cases "LENGTH('w) = 1")
  case True
  with assms have "sint x < 0" by simp
  moreover have "- 1 \<le> sint x" using sint_ge [of x] True by simp
  ultimately have "sint x = - 1" by simp
  then show ?thesis
    using True by (simp add: sint_word_ariths)
next
  case False
  then have one: "sint (1 :: 'w word) = 1" by simp
  have "- (2 ^ (LENGTH('w) - 1)) \<le> sint x + 1" using sint_ge [of x] by simp
  moreover have "sint x + 1 < 2 ^ (LENGTH('w) - 1)" using assms by simp
  ultimately have "signed_take_bit (LENGTH('w) - 1) (sint x + 1) = sint x + 1"
    by (rule signed_take_bit_int_eq_self)
  then show ?thesis
    using False by (simp add: sint_word_ariths one)
qed

lemma sint_of_nat_small:
  assumes "n < 2 ^ (LENGTH('w::len) - 1)"
  shows "sint (of_nat n :: 'w word) = int n"
proof -
  have "int n < 2 ^ (LENGTH('w) - 1)"
    using assms by (metis of_nat_less_iff of_nat_numeral of_nat_power)
  moreover have "- (2 ^ (LENGTH('w) - 1)) \<le> int n"
    by (rule order_trans [of _ 0]) simp_all
  ultimately have "signed_take_bit (LENGTH('w) - 1) (int n) = int n"
    by (intro signed_take_bit_int_eq_self)
  then show ?thesis
    by (simp add: signed_of_nat)
qed

text \<open>
  C3. For every call of \<^verbatim>\<open>Update\<close> with clock reading \<open>now\<close>, on a counter whose window
  start is not NaN (it is a clock reading in every run): if \<open>now - lastUpdate < 0.25\<close>, the
  call increments the frame count, leaves window start and smoothed value unchanged and
  returns the smoothed value; otherwise it computes the instantaneous rate as the
  incremented frame count divided by \<open>now - lastUpdate\<close>, sets the smoothed value to it when
  the smoothed value equals \<open>0\<close> and to \<open>fps * 0.9 + instantFps * 0.1\<close> otherwise, resets the
  frame count to \<open>0\<close> and the window start to \<open>now\<close>, and returns the new smoothed value.
  The increment is the one of the machine integer, for every width of \<^verbatim>\<open>int\<close>.
\<close>

theorem C3_update:
  assumes "lastUpdate fc \<noteq> NaN"
  shows "Update fc now =
     (if flt (fsub (Fin now) (lastUpdate fc)) (Fin 0.25)
      then (fc\<lparr>frameCount := frameCount fc + 1\<rparr>, fps fc)
      else
        let instantFps = fdiv (float64_of_int (sint (frameCount fc + 1)))
                              (fsub (Fin now) (lastUpdate fc));
            smoothedFps = (if feq (fps fc) (Fin 0) then instantFps
                           else fadd (fmul (fps fc) (Fin 0.9)) (fmul instantFps (Fin 0.1)))
        in (\<lparr>lastUpdate = Fin now, frameCount = 0, fps = smoothedFps\<rparr>, smoothedFps))"
proof -
  have "fge (fsub (Fin now) (lastUpdate fc)) (Fin 0.25) \<longleftrightarrow> \<not> flt (fsub (Fin now) (lastUpdate fc)) (Fin 0.25)"
    using assms by (cases "lastUpdate fc") (auto simp: fge_def fsub_def)
  then show ?thesis
    by (simp add: Update_def Let_def)
qed

theorem C3_update_witness:
  "Update \<lparr>lastUpdate = Fin 1, frameCount = 14 :: 64 word, fps = Fin 50\<rparr> (5 / 4)
     = (\<lparr>lastUpdate = Fin (5 / 4), frameCount = 0, fps = Fin 51\<rparr>, Fin 51)
   \<and> Update \<lparr>lastUpdate = Fin 1, frameCount = 3 :: 32 word, fps = Fin 50\<rparr> (11 / 10)
     = (\<lparr>lastUpdate = Fin 1, frameCount = 4, fps = Fin 50\<rparr>, Fin 50)"
  using C3_update [of "\<lparr>lastUpdate = Fin 1, frameCount = 14 :: 64 word, fps = Fin 50\<rparr>" "5 / 4"]
    C3_update [of "\<lparr>lastUpdate = Fin 1, frameCount = 3 :: 32 word, fps = Fin 50\<rparr>" "11 / 10"]
  by (simp add: fsub_def feq_def float64_of_int_def Let_def)


lemma updateRun_snoc: "updateRun fc (readings @ [now]) = fst (Update (updateRun fc readings) now)"
  by (simp add: updateRun_def)

lemma updateRun_Nil [simp]: "updateRun fc [] = fc"
  by (simp add: updateRun_def)

lemma updateRun_Cons: "updateRun fc (now # readings) = updateRun (fst (Update fc now)) readings"
  by (simp add: updateRun_def)

lemma updateRun_append: "updateRun fc (xs @ ys) = updateRun (updateRun fc xs) ys"
  by (simp add: updateRun_def)

lemma frameTimes_Suc: "frameTimes (Suc n) = frameTimes n @ [real (Suc n) / 60]"
  by (simp add: frameTimes_def)

lemma sixteen_le_half_range:
  assumes "4 < LENGTH('w::len)"
  shows "(16::nat) \<le> 2 ^ (LENGTH('w) - 1)"
proof -
  have "(2::nat) ^ 4 \<le> 2 ^ (LENGTH('w) - 1)"
    by (rule power_increasing) (use assms in simp_all)
  then show ?thesis by simp
qed

lemma Update_sixty:
  fixes q r :: nat
  assumes "r < 15" and wide: "4 < LENGTH('w::len)"
  shows "fst (Update \<lparr>lastUpdate = Fin (real q / 4), frameCount = (of_nat r :: 'w word),
                      fps = Fin (if q = 0 then 0 else 60)\<rparr>
            (real (Suc (15 * q + r)) / 60))
       = (if r = 14 then \<lparr>lastUpdate = Fin (real (Suc q) / 4), frameCount = 0, fps = Fin 60\<rparr>
          else \<lparr>lastUpdate = Fin (real q / 4), frameCount = of_nat (Suc r),
                 fps = Fin (if q = 0 then 0 else 60)\<rparr>)"
proof -
  have "Suc r < 2 ^ (LENGTH('w) - 1)"
    using assms(1) sixteen_le_half_range [OF wide] by simp
  then have count: "sint (of_nat r + 1 :: 'w word) = int r + 1"
    using sint_of_nat_small [of "Suc r", where 'w = 'w] by (simp add: add.commute)
  show ?thesis
  proof (cases "r = 14")
    case True
    then show ?thesis
      using count
      by (simp add: Update_def Let_def fsub_def fge_def feq_def float64_of_int_def field_simps)
  next
    case False
    with assms have "r < 14" by simp
    then have "real r < 14" by simp
    then show ?thesis
      using False
      by (simp add: Update_def Let_def fsub_def fge_def feq_def float64_of_int_def field_simps)
  qed
qed

lemma frameTimes_state:
  assumes wide: "4 < LENGTH('w::len)"
  shows "updateRun (NewFPSCounter 0) (frameTimes n)
     = \<lparr>lastUpdate = Fin (real (n div 15) / 4), frameCount = (of_nat (n mod 15) :: 'w word),
        fps = Fin (if n div 15 = 0 then 0 else 60)\<rparr>"
proof (induction n)
  case 0
  show ?case by (simp add: frameTimes_def NewFPSCounter_def)
next
  case (Suc n)
  define q where "q = n div 15"
  define r where "r = n mod 15"
  have r: "r < 15" by (simp add: r_def)
  have n: "n = 15 * q + r" by (simp add: q_def r_def)
  have step: "updateRun (NewFPSCounter 0) (frameTimes (Suc n))
      = (if r = 14 then \<lparr>lastUpdate = Fin (real (Suc q) / 4), frameCount = (0 :: 'w word), fps = Fin 60\<rparr>
          else \<lparr>lastUpdate = Fin (real q / 4), frameCount = of_nat (Suc r),
                 fps = Fin (if q = 0 then 0 else 60)\<rparr>)"
    unfolding frameTimes_Suc updateRun_snoc Suc.IH q_def [symmetric] r_def [symmetric]
    using Update_sixty [OF r wide, of q] by (simp only: n)
  show ?case
  proof (cases "r = 14")
    case True
    then have "Suc n = 15 * Suc q" using n by simp
    then have "Suc n div 15 = Suc q" "Suc n mod 15 = 0" by simp_all
    with True step show ?thesis by simp
  next
    case False
    with r have "Suc r < 15" by simp
    moreover have "Suc n = 15 * q + Suc r" using n by simp
    ultimately have "Suc n div 15 = q" "Suc n mod 15 = Suc r" by simp_all
    with False step show ?thesis by simp
  qed
qed

lemma Update_snd: "snd (Update fc now) = fps (fst (Update fc now))"
  by (simp add: Update_def Let_def)

lemma frameTimes_returned:
  assumes wide: "4 < LENGTH('w::len)"
  shows "snd (Update (updateRun (NewFPSCounter 0 :: 'w word FPSCounter) (frameTimes n))
            (real (Suc n) / 60))
     = Fin (if Suc n div 15 = 0 then 0 else 60)"
proof -
  have "snd (Update (updateRun (NewFPSCounter 0 :: 'w word FPSCounter) (frameTimes n))
            (real (Suc n) / 60))
      = fps (updateRun (NewFPSCounter 0 :: 'w word FPSCounter) (frameTimes (Suc n)))"
    by (simp only: Update_snd frameTimes_Suc updateRun_snoc)
  then show ?thesis
    by (simp only: frameTimes_state [OF wide] FPSCounter.simps)
qed

lemma frameTimes_within:
  assumes wide: "4 < LENGTH('w::len)" and "120 \<le> n"
  shows "\<exists>v. snd (Update (updateRun (NewFPSCounter 0 :: 'w word FPSCounter) (frameTimes (n - 1)))
               (real n / 60)) = Fin v
          \<and> \<bar>v - 60\<bar> \<le> 2 / 100 * 60"
proof -
  from assms(2) obtain m where m: "n = Suc m" by (cases n) auto
  with assms(2) have "Suc m div 15 \<noteq> 0" by simp
  then show ?thesis
    using frameTimes_returned [OF wide, of m] by (simp add: m)
qed

text \<open>
  C8. Starting from the counter with window start \<open>0\<close>, frame count \<open>0\<close> and smoothed value
  \<open>0\<close>, with one call of \<^verbatim>\<open>Update\<close> at each of the clock readings \<open>k / 60\<close> for
  \<open>k = 1, 2, \<dots>\<close>, the value that the \<open>n\<close>-th call returns is within 2 percent of \<open>60\<close> for
  every \<open>n\<close> from \<open>120\<close> on, that is, after two seconds; this holds with a 32-bit and with
  a 64-bit \<^verbatim>\<open>int\<close>. (Every window is closed by its fifteenth call and measures
  \<open>15 / 0.25 = 60\<close>, so that the returned value is \<open>60\<close> from the fifteenth call on; the
  readings \<open>k / 60\<close> are exact in this model.)
\<close>

theorem C8_sixty:
  assumes "120 \<le> n"
  shows "(\<exists>v. snd (Update (updateRun (NewFPSCounter 0 :: 32 word FPSCounter) (frameTimes (n - 1)))
                (real n / 60)) = Fin v
           \<and> \<bar>v - 60\<bar> \<le> 2 / 100 * 60)
       \<and> (\<exists>v. snd (Update (updateRun (NewFPSCounter 0 :: 64 word FPSCounter) (frameTimes (n - 1)))
                (real n / 60)) = Fin v
           \<and> \<bar>v - 60\<bar> \<le> 2 / 100 * 60)"
  using assms by (intro conjI frameTimes_within) simp_all

theorem C8_sixty_witness:
  "(\<exists>v. snd (Update (updateRun (NewFPSCounter 0 :: 32 word FPSCounter) (frameTimes (120 - 1)))
                (real 120 / 60)) = Fin v
           \<and> \<bar>v - 60\<bar> \<le> 2 / 100 * 60)
       \<and> (\<exists>v. snd (Update (updateRun (NewFPSCounter 0 :: 64 word FPSCounter) (frameTimes (120 - 1)))
                (real 120 / 60)) = Fin v
           \<and> \<bar>v - 60\<bar> \<le> 2 / 100 * 60)"
  using C8_sixty [of 120] by simp

section \<open>The zero sentinel of the smoothed value\<close>

lemma Update_quiet:
  assumes "lastUpdate fc = Fin l" and "now - l < 1 / 4"
  shows "fst (Update fc now) = fc\<lparr>frameCount := frameCount fc + 1\<rparr>"
  using assms by (simp add: Update_def Let_def fsub_def fge_def)

lemma updateRun_quiet:
  assumes "lastUpdate fc = Fin l" and "\<forall>now \<in> set readings. now - l < 1 / 4"
  shows "updateRun fc readings = fc\<lparr>frameCount := frameCount fc + of_nat (length readings)\<rparr>"
  using assms
proof (induction readings arbitrary: fc)
  case Nil
  show ?case by simp
next
  case (Cons now readings)
  have "updateRun (fc\<lparr>frameCount := frameCount fc + 1\<rparr>) readings
      = fc\<lparr>frameCount := frameCount fc + 1 + of_nat (length readings)\<rparr>"
    using Cons.IH [of "fc\<lparr>frameCount := frameCount fc + 1\<rparr>"] Cons.prems by simp
  then show ?case
    using Cons.prems by (simp add: updateRun_Cons Update_quiet [of fc l] add.assoc add.commute)
qed

lemma wrap_first:
  "fst (Update (NewFPSCounter 0 :: 32 word FPSCounter) (1 / 4))
     = \<lparr>lastUpdate = Fin (1 / 4), frameCount = 0, fps = Fin 4\<rparr>"
  by (simp add: Update_def NewFPSCounter_def Let_def fsub_def fge_def feq_def float64_of_int_def)

lemma wrap_middle:
  "updateRun \<lparr>lastUpdate = Fin (1 / 4), frameCount = (0 :: 32 word), fps = Fin 4\<rparr>
       (map (\<lambda>k. 1 / 4 + real k / 2 ^ 33) [1..<2 ^ 31])
     = \<lparr>lastUpdate = Fin (1 / 4), frameCount = 2147483647, fps = Fin 4\<rparr>"
proof -
  have "\<forall>now \<in> set (map (\<lambda>k. 1 / 4 + real k / 2 ^ 33) [1..<2 ^ 31]). now - 1 / 4 < 1 / 4"
  proof
    fix now
    assume "now \<in> set (map (\<lambda>k. 1 / 4 + real k / 2 ^ 33) [1..<2 ^ 31])"
    then obtain k :: nat where "k \<in> {1..<2 ^ 31}" and now: "now = 1 / 4 + real k / 2 ^ 33"
      by (auto simp only: set_map set_upt)
    then have k: "k < 2 ^ 31"
      by (simp only: atLeastLessThan_iff)
    from k have "real k < 2 ^ 31"
      by (metis of_nat_less_iff of_nat_numeral of_nat_power)
    then have "real k / 2 ^ 33 < 2 ^ 31 / 2 ^ 33"
      by (simp only: divide_strict_right_mono zero_less_power zero_less_numeral)
    then show "now - 1 / 4 < 1 / 4"
      by (simp add: now)
  qed
  then have "updateRun \<lparr>lastUpdate = Fin (1 / 4), frameCount = (0 :: 32 word), fps = Fin 4\<rparr>
       (map (\<lambda>k. 1 / 4 + real k / 2 ^ 33) [1..<2 ^ 31])
     = \<lparr>lastUpdate = Fin (1 / 4), frameCount = (0 :: 32 word), fps = Fin 4\<rparr>
        \<lparr>frameCount := 0 + of_nat (length (map (\<lambda>k. 1 / 4 + real k / 2 ^ 33) [1..<2 ^ 31]))\<rparr>"
    by (intro updateRun_quiet [where l = "1 / 4", THEN trans]) simp_all
  also have "length (map (\<lambda>k. 1 / 4 + real k / 2 ^ 33) [1..<2 ^ 31]) = 2147483647"
    by (simp only: length_map length_upt) simp
  finally show ?thesis
    by simp
qed

lemma wrap_last:
  "fst (Update \<lparr>lastUpdate = Fin (1 / 4), frameCount = (2147483647 :: 32 word), fps = Fin 4\<rparr> (1 / 2))
     = \<lparr>lastUpdate = Fin (1 / 2), frameCount = 0, fps = Fin (- 4294967278 / 5)\<rparr>"
  by (simp add: Update_def Let_def fsub_def fge_def feq_def float64_of_int_def)


lemma wrapReadings_sorted: "sorted_wrt (<) (0 # wrapReadings)"
proof -
  let ?f = "\<lambda>k. 1 / 4 + real k / 2 ^ 33"
  let ?mid = "map ?f [1..<2 ^ 31]"
  have bounds: "1 / 4 < x \<and> x < 1 / 2" if "x \<in> set ?mid" for x
  proof -
    from that obtain k :: nat where "k \<in> {1..<2 ^ 31}" and x: "x = ?f k"
      by (auto simp only: set_map set_upt)
    then have "1 \<le> k" "k < 2 ^ 31"
      by (simp_all only: atLeastLessThan_iff)
    then have "0 < real k" "real k < 2 ^ 31"
      by (simp, metis of_nat_less_iff of_nat_numeral of_nat_power)
    then have "0 < real k / 2 ^ 33" "real k / 2 ^ 33 < 2 ^ 31 / 2 ^ 33"
      by (simp_all only: divide_strict_right_mono zero_less_power zero_less_numeral
          zero_less_divide_iff simp_thms)
    then show ?thesis
      by (simp add: x)
  qed
  have "sorted_wrt (\<lambda>j k. ?f j < ?f k) [1..<2 ^ 31]"
    by (rule sorted_wrt_mono_rel [OF _ sorted_wrt_upt]) (simp add: divide_strict_right_mono)
  then have mid: "sorted_wrt (<) ?mid"
    by (simp only: sorted_wrt_map)
  show ?thesis
    unfolding wrapReadings_def
    using mid bounds by (auto simp: sorted_wrt_append dest: bounds)
qed


lemma fps_inv_iff:
  "fps_inv fc \<longleftrightarrow>
     (\<exists>l v. lastUpdate fc = Fin l \<and> 0 \<le> sint (frameCount fc) \<and> fps fc = Fin v \<and> 0 \<le> v)"
  by (cases "lastUpdate fc"; cases "fps fc") (auto simp: fps_inv_def)

lemma fps_positive_iff: "fps_positive fc \<longleftrightarrow> (\<exists>v. fps fc = Fin v \<and> 0 < v)"
  by (cases "fps fc") (auto simp: fps_positive_def)

lemma signed_nonneg_real: "0 \<le> sint x \<Longrightarrow> (0::real) \<le> signed x"
  by (metis of_int_0_le_iff of_int_sint)

lemma signed_succ_real:
  fixes x :: "'w::len word"
  assumes "sint x < 2 ^ (LENGTH('w) - 1) - 1"
  shows "(signed (x + 1) :: real) = signed x + 1"
  by (metis sint_succ [OF assms] of_int_sint of_int_add of_int_1)

lemma Update_fps_inv:
  fixes fc :: "('w::len) word FPSCounter"
  assumes "fps_inv fc" and room: "sint (frameCount fc) < 2 ^ (LENGTH('w) - 1) - 1"
  shows "fps_inv (fst (Update fc now))"
proof -
  from assms obtain l v where
    *: "lastUpdate fc = Fin l" "0 \<le> sint (frameCount fc)" "fps fc = Fin v" "0 \<le> v"
    by (auto simp: fps_inv_iff)
  note count = sint_succ [OF room] signed_succ_real [OF room]
  note nonneg = signed_nonneg_real [OF *(2)]
  have inst: "0 \<le> ((signed (frameCount fc) :: real) + 1) / (now - l)" if "1 / 4 \<le> now - l"
    using that nonneg by (intro divide_nonneg_pos) auto
  have "0 \<le> v * (9 / 10) + ((signed (frameCount fc) :: real) + 1) / (now - l) * (1 / 10)"
    if "1 / 4 \<le> now - l"
    using inst [OF that] *(4) by (intro add_nonneg_nonneg mult_nonneg_nonneg) simp_all
  with inst show ?thesis
    using *
    by (auto simp: fps_inv_iff Update_def Let_def fsub_def fge_def feq_def float64_of_int_def count)
qed

lemma Update_closes_positive:
  fixes fc :: "('w::len) word FPSCounter"
  assumes "fps_inv fc" and room: "sint (frameCount fc) < 2 ^ (LENGTH('w) - 1) - 1"
    and "windowCloses fc now"
  shows "fps_positive (fst (Update fc now))"
proof -
  from assms obtain l v where
    *: "lastUpdate fc = Fin l" "0 \<le> sint (frameCount fc)" "fps fc = Fin v" "0 \<le> v"
    by (auto simp: fps_inv_iff)
  note count = sint_succ [OF room] signed_succ_real [OF room]
  note nonneg = signed_nonneg_real [OF *(2)]
  from assms(3) * have w: "1 / 4 \<le> now - l"
    by (simp add: windowCloses_def fge_def fsub_def)
  have pos: "0 < ((signed (frameCount fc) :: real) + 1) / (now - l)"
    using w nonneg by (intro divide_pos_pos) auto
  have "0 < v * (9 / 10) + ((signed (frameCount fc) :: real) + 1) / (now - l) * (1 / 10)"
    using pos *(4) by (intro add_nonneg_pos mult_nonneg_nonneg mult_pos_pos) simp_all
  with pos show ?thesis
    using * w
    by (auto simp: fps_positive_iff Update_def Let_def fsub_def fge_def feq_def
        float64_of_int_def count)
qed

lemma Update_keeps_positive:
  fixes fc :: "('w::len) word FPSCounter"
  assumes "fps_inv fc" and "sint (frameCount fc) < 2 ^ (LENGTH('w) - 1) - 1"
    and "fps_positive fc"
  shows "fps_positive (fst (Update fc now))"
proof (cases "windowCloses fc now")
  case True
  with assms(1,2) show ?thesis by (rule Update_closes_positive)
next
  case False
  with assms(3) show ?thesis
    by (simp add: fps_positive_def windowCloses_def Update_def Let_def)
qed

lemma noWrap_append:
  "noWrap fc (xs @ ys) \<longleftrightarrow> noWrap fc xs \<and> noWrap (updateRun fc xs) ys"
  by (induction xs arbitrary: fc) (auto simp: updateRun_Cons)

lemma updateRun_fps_inv: "fps_inv fc \<Longrightarrow> noWrap fc readings \<Longrightarrow> fps_inv (updateRun fc readings)"
  by (induction readings arbitrary: fc) (simp_all add: updateRun_Cons Update_fps_inv)

lemma updateRun_keeps_positive:
  "fps_inv fc \<Longrightarrow> noWrap fc readings \<Longrightarrow> fps_positive fc \<Longrightarrow> fps_positive (updateRun fc readings)"
  by (induction readings arbitrary: fc)
    (simp_all add: updateRun_Cons Update_fps_inv Update_keeps_positive)

lemma positive_not_seeds: "fps_positive fc \<Longrightarrow> \<not> seeds fc now"
  by (auto simp: fps_positive_iff seeds_def feq_def)

lemma seedCount_positive:
  "fps_inv fc \<Longrightarrow> noWrap fc readings \<Longrightarrow> fps_positive fc \<Longrightarrow> seedCount fc readings = 0"
  by (induction readings arbitrary: fc)
    (simp_all add: positive_not_seeds Update_fps_inv Update_keeps_positive)

lemma seedCount_le_one: "fps_inv fc \<Longrightarrow> noWrap fc readings \<Longrightarrow> seedCount fc readings \<le> 1"
proof (induction readings arbitrary: fc)
  case Nil
  show ?case by simp
next
  case (Cons now readings)
  from Cons.prems have room: "sint (frameCount fc) < 2 ^ (LENGTH('a) - 1) - 1"
    and rest: "noWrap (fst (Update fc now)) readings"
    by simp_all
  note inv = Update_fps_inv [OF Cons.prems(1) room]
  show ?case
  proof (cases "seeds fc now")
    case True
    then have "windowCloses fc now" by (simp add: seeds_def)
    with Cons.prems(1) room have "fps_positive (fst (Update fc now))"
      by (rule Update_closes_positive)
    with inv rest have "seedCount (fst (Update fc now)) readings = 0"
      by (simp add: seedCount_positive)
    with True show ?thesis by simp
  next
    case False
    with Cons.IH [OF inv rest] show ?thesis by simp
  qed
qed

lemma NewFPSCounter_fps_inv: "fps_inv (NewFPSCounter start)"
  by (simp add: fps_inv_def NewFPSCounter_def)



section \<open>Keyboard movement\<close>

lemma fmul_commute: "fmul x y = fmul y x"
  by (cases x; cases y) (simp_all add: mult.commute)

lemma HandleKeyboard_position:
  "HandleKeyboard c keyW keyS keyA keyD deltaTime =
     c\<lparr>Position :=
         (let speed = fmul (MovementSpeed c) deltaTime;
              p = Position c;
              p = (if keyW then Add p (Mul (Front c) speed) else p);
              p = (if keyS then Sub p (Mul (Front c) speed) else p);
              p = (if keyA then Sub p (Mul (Right c) speed) else p);
              p = (if keyD then Add p (Mul (Right c) speed) else p)
          in p)\<rparr>"
  by (simp add: HandleKeyboard_def Let_def fmul_commute [of deltaTime])

lemma renderLoopMovement_eq:
  "renderLoopMovement c keyW keyS keyA keyD deltaTime = HandleKeyboard c keyW keyS keyA keyD deltaTime"
  by (simp add: renderLoopMovement_def HandleKeyboard_def)

lemma HandleKeyboard_finite:
  assumes "Position c = (Fin px, Fin py, Fin pz)" and "Front c = (Fin fx, Fin fy, Fin fz)"
    and "Right c = (Fin rx, Fin ry, Fin rz)" and "MovementSpeed c = Fin m"
  shows "Position (HandleKeyboard c keyW keyS keyA keyD (Fin t)) =
     (Fin (px + m * t * ((of_bool keyW - of_bool keyS) * fx + (of_bool keyD - of_bool keyA) * rx)),
      Fin (py + m * t * ((of_bool keyW - of_bool keyS) * fy + (of_bool keyD - of_bool keyA) * ry)),
      Fin (pz + m * t * ((of_bool keyW - of_bool keyS) * fz + (of_bool keyD - of_bool keyA) * rz)))"
  using assms
  by (cases keyW; cases keyS; cases keyA; cases keyD)
    (simp_all add: HandleKeyboard_def Let_def fsub_def algebra_simps)

lemma diagonal_longer:
  assumes pos: "Position c = (Fin px, Fin py, Fin pz)" and front: "Front c = (Fin fx, Fin fy, Fin fz)"
    and right: "Right c = (Fin rx, Fin ry, Fin rz)" and speed: "MovementSpeed c = Fin m"
    and f1: "fx * fx + fy * fy + fz * fz = 1" and r1: "rx * rx + ry * ry + rz * rz = 1"
    and fr: "fx * rx + fy * ry + fz * rz = 0" and nz: "m * t \<noteq> 0"
  shows "flt (Len (Sub (Position (HandleKeyboard c True False False False (Fin t))) (Position c)))
             (Len (Sub (Position (HandleKeyboard c True False False True (Fin t))) (Position c)))"
proof -
  let ?s = "m * t"
  have w: "Sub (Position (HandleKeyboard c True False False False (Fin t))) (Position c)
      = (Fin (?s * fx), Fin (?s * fy), Fin (?s * fz))"
    by (simp add: HandleKeyboard_finite [OF pos front right speed] pos fsub_def)
  have wd: "Sub (Position (HandleKeyboard c True False False True (Fin t))) (Position c)
      = (Fin (?s * (fx + rx)), Fin (?s * (fy + ry)), Fin (?s * (fz + rz)))"
    by (simp add: HandleKeyboard_finite [OF pos front right speed] pos fsub_def)
  have "(?s * fx) * (?s * fx) + (?s * fy) * (?s * fy) + (?s * fz) * (?s * fz)
      = ?s * ?s * (fx * fx + fy * fy + fz * fz)"
    by algebra
  then have a: "(?s * fx) * (?s * fx) + (?s * fy) * (?s * fy) + (?s * fz) * (?s * fz) = ?s * ?s"
    by (simp only: f1 mult_1_right)
  have "(?s * (fx + rx)) * (?s * (fx + rx)) + (?s * (fy + ry)) * (?s * (fy + ry))
        + (?s * (fz + rz)) * (?s * (fz + rz))
      = ?s * ?s * ((fx * fx + fy * fy + fz * fz) + 2 * (fx * rx + fy * ry + fz * rz)
          + (rx * rx + ry * ry + rz * rz))"
    by algebra
  then have b: "(?s * (fx + rx)) * (?s * (fx + rx)) + (?s * (fy + ry)) * (?s * (fy + ry))
        + (?s * (fz + rz)) * (?s * (fz + rz)) = 2 * (?s * ?s)"
    by (simp only: f1 r1 fr) simp
  have "0 < (m * t)\<^sup>2"
    using nz by (simp only: zero_less_power2 not_False_eq_True)
  then have "0 < ?s * ?s"
    by (simp only: power2_eq_square)
  then have "sqrt (?s * ?s) < sqrt (2 * (?s * ?s))"
    by (simp only: real_sqrt_less_iff)
  then show ?thesis
    by (simp only: w wd Len_Fin a b flt.simps)
qed


text \<open>
  C5. For every combination of the four key booleans and every \<open>deltaTime\<close>,
  \<^verbatim>\<open>HandleKeyboard\<close> changes the position only: with \<open>speed\<close> the product of the
  movement speed and \<open>deltaTime\<close>, it adds \<open>speed * front\<close> when W is pressed, then subtracts
  \<open>speed * front\<close> when S is pressed, then subtracts \<open>speed * right\<close> when A is pressed, then
  adds \<open>speed * right\<close> when D is pressed. The movement code of the render loop in
  \<^verbatim>\<open>main\<close> is the same function. On finite values the translations sum: the new
  position is the old one plus \<open>speed * ((W - S) * front + (D - A) * right)\<close>, with each
  key counted as \<open>1\<close> when pressed and \<open>0\<close> otherwise, and nothing normalises the sum; for
  unit vectors front and right that are orthogonal and a non-zero speed, the move with W
  and D pressed is longer than the move with W alone.
\<close>

theorem C5_keyboard:
  "HandleKeyboard c keyW keyS keyA keyD deltaTime =
     c\<lparr>Position :=
         (let speed = fmul (MovementSpeed c) deltaTime;
              p = Position c;
              p = (if keyW then Add p (Mul (Front c) speed) else p);
              p = (if keyS then Sub p (Mul (Front c) speed) else p);
              p = (if keyA then Sub p (Mul (Right c) speed) else p);
              p = (if keyD then Add p (Mul (Right c) speed) else p)
          in p)\<rparr>
   \<and> renderLoopMovement c keyW keyS keyA keyD deltaTime
       = HandleKeyboard c keyW keyS keyA keyD deltaTime
   \<and> (Position c = (Fin px, Fin py, Fin pz) \<and> Front c = (Fin fx, Fin fy, Fin fz)
        \<and> Right c = (Fin rx, Fin ry, Fin rz) \<and> MovementSpeed c = Fin m \<and> deltaTime = Fin t \<longrightarrow>
        Position (HandleKeyboard c keyW keyS keyA keyD deltaTime) =
          (Fin (px + m * t * ((of_bool keyW - of_bool keyS) * fx + (of_bool keyD - of_bool keyA) * rx)),
           Fin (py + m * t * ((of_bool keyW - of_bool keyS) * fy + (of_bool keyD - of_bool keyA) * ry)),
           Fin (pz + m * t * ((of_bool keyW - of_bool keyS) * fz + (of_bool keyD - of_bool keyA) * rz)))
        \<and> (fx * fx + fy * fy + fz * fz = 1 \<and> rx * rx + ry * ry + rz * rz = 1
             \<and> fx * rx + fy * ry + fz * rz = 0 \<and> m * t \<noteq> 0 \<longrightarrow>
             flt (Len (Sub (Position (HandleKeyboard c True False False False deltaTime)) (Position c)))
                 (Len (Sub (Position (HandleKeyboard c True False False True deltaTime)) (Position c)))))"
proof (intro conjI impI)
  show "HandleKeyboard c keyW keyS keyA keyD deltaTime =
     c\<lparr>Position :=
         (let speed = fmul (MovementSpeed c) deltaTime;
              p = Position c;
              p = (if keyW then Add p (Mul (Front c) speed) else p);
              p = (if keyS then Sub p (Mul (Front c) speed) else p);
              p = (if keyA then Sub p (Mul (Right c) speed) else p);
              p = (if keyD then Add p (Mul (Right c) speed) else p)
          in p)\<rparr>"
    by (rule HandleKeyboard_position)
next
  show "renderLoopMovement c keyW keyS keyA keyD deltaTime
       = HandleKeyboard c keyW keyS keyA keyD deltaTime"
    by (rule renderLoopMovement_eq)
next
  assume fin: "Position c = (Fin px, Fin py, Fin pz) \<and> Front c = (Fin fx, Fin fy, Fin fz)
        \<and> Right c = (Fin rx, Fin ry, Fin rz) \<and> MovementSpeed c = Fin m \<and> deltaTime = Fin t"
  then show "Position (HandleKeyboard c keyW keyS keyA keyD deltaTime) =
          (Fin (px + m * t * ((of_bool keyW - of_bool keyS) * fx + (of_bool keyD - of_bool keyA) * rx)),
           Fin (py + m * t * ((of_bool keyW - of_bool keyS) * fy + (of_bool keyD - of_bool keyA) * ry)),
           Fin (pz + m * t * ((of_bool keyW - of_bool keyS) * fz + (of_bool keyD - of_bool keyA) * rz)))"
    by (simp only: HandleKeyboard_finite)
  assume "fx * fx + fy * fy + fz * fz = 1 \<and> rx * rx + ry * ry + rz * rz = 1
             \<and> fx * rx + fy * ry + fz * rz = 0 \<and> m * t \<noteq> 0"
  with fin show "flt (Len (Sub (Position (HandleKeyboard c True False False False deltaTime)) (Position c)))
                 (Len (Sub (Position (HandleKeyboard c True False False True deltaTime)) (Position c)))"
    using diagonal_longer [of c px py pz fx fy fz rx ry rz m t] by blast
qed

theorem C5_keyboard_witness:
  "HandleKeyboard NewCamera True False False True (Fin (2 / 5))
     = NewCamera\<lparr>Position := (Fin 1, Fin 0, Fin 2)\<rparr>
   \<and> renderLoopMovement NewCamera True False False True (Fin (2 / 5))
     = HandleKeyboard NewCamera True False False True (Fin (2 / 5))
   \<and> flt (Len (Sub (Position (HandleKeyboard NewCamera True False False False (Fin (2 / 5))))
                 (Position NewCamera)))
         (Len (Sub (Position (HandleKeyboard NewCamera True False False True (Fin (2 / 5))))
                 (Position NewCamera)))"
proof -
  note keyboard = C5_keyboard [of NewCamera True False False True "Fin (2 / 5)"
      0 0 3 0 0 "- 1" 1 0 0 "5 / 2" "2 / 5"]
  have finite: "Position NewCamera = (Fin 0, Fin 0, Fin 3) \<and> Front NewCamera = (Fin 0, Fin 0, Fin (- 1))
      \<and> Right NewCamera = (Fin 1, Fin 0, Fin 0) \<and> MovementSpeed NewCamera = Fin (5 / 2)
      \<and> Fin (2 / 5) = Fin (2 / 5)"
    by (simp add: NewCamera_val)
  have unit: "(0::real) * 0 + 0 * 0 + (- 1) * (- 1) = 1 \<and> (1::real) * 1 + 0 * 0 + 0 * 0 = 1
      \<and> (0::real) * 1 + 0 * 0 + (- 1) * 0 = 0 \<and> (5::real) / 2 * (2 / 5) \<noteq> 0"
    by simp
  have "HandleKeyboard NewCamera True False False True (Fin (2 / 5))
     = NewCamera\<lparr>Position := (Fin 1, Fin 0, Fin 2)\<rparr>"
    using keyboard [THEN conjunct1] by (simp add: NewCamera_val)
  moreover have "renderLoopMovement NewCamera True False False True (Fin (2 / 5))
     = HandleKeyboard NewCamera True False False True (Fin (2 / 5))"
    by (rule keyboard [THEN conjunct2, THEN conjunct1])
  moreover have "flt (Len (Sub (Position (HandleKeyboard NewCamera True False False False (Fin (2 / 5))))
                 (Position NewCamera)))
         (Len (Sub (Position (HandleKeyboard NewCamera True False False True (Fin (2 / 5))))
                 (Position NewCamera)))"
    by (rule mp [OF mp [OF keyboard [THEN conjunct2, THEN conjunct2] finite, THEN conjunct2] unit])
  ultimately show ?thesis
    by (intro conjI)
qed

end
